theory Spec2Isabelle
  imports Main
begin

section \<open>Grammar Sniper: the embedded program\<close>

subsection \<open>JavaScript strings\<close>

text \<open>
  A JavaScript string is a sequence of UTF-16 code units, and \<open>length\<close>, \<open>substring\<close>,
  \<open>indexOf\<close> and the regular expressions of the source all count code units. A code unit
  is modelled as a natural number (the strings of the program only hold values below
  65536); \<open>js\<close> turns an ASCII literal into such a string.
\<close>

type_synonym jschar = nat
type_synonym jsstring = "jschar list"

definition js :: "string \<Rightarrow> jsstring" where
  "js s = map of_char s"

text \<open>
  The white space of \<open>String.prototype.trim\<close> and of the class \<open>\s\<close>: the WhiteSpace and
  LineTerminator code points of ECMAScript.
\<close>

definition isWhiteSpace :: "jschar \<Rightarrow> bool" where
  "isWhiteSpace c \<longleftrightarrow>
     c = 9 \<or> c = 10 \<or> c = 11 \<or> c = 12 \<or> c = 13 \<or> c = 32 \<or> c = 160 \<or> c = 5760
     \<or> (8192 \<le> c \<and> c \<le> 8202) \<or> c = 8232 \<or> c = 8233 \<or> c = 8239 \<or> c = 8287
     \<or> c = 12288 \<or> c = 65279"

definition trim :: "jsstring \<Rightarrow> jsstring" where
  "trim s = rev (dropWhile isWhiteSpace (rev (dropWhile isWhiteSpace s)))"

subsection \<open>Text nodes of an element (grammarCheck.js, lines 15 to 100)\<close>

text \<open>
  Both functions walk the text nodes of an element in document order with a TreeWalker.
  The element is its sequence of text nodes, each given by its \<open>nodeValue\<close>; a node is
  identified by its place in that sequence. A node whose value is empty or only white
  space is skipped by the \<open>continue\<close> of either loop.
\<close>

definition skipped :: "jsstring \<Rightarrow> bool" where
  "skipped v \<longleftrightarrow> v = [] \<or> trim v = []"

text \<open>
  The loop of \<open>findTextNodeAtPosition\<close>: \<open>i\<close> is the node the walker is at and
  \<open>currentLength\<close> the text passed so far. It yields \<open>foundNode\<close> with \<open>foundOffset\<close>,
  and \<open>currentLength\<close> at exit.
\<close>

fun findLoop :: "jsstring list \<Rightarrow> nat \<Rightarrow> int \<Rightarrow> nat \<Rightarrow> (nat \<times> nat) option \<times> nat" where
  "findLoop [] i position currentLength = (None, currentLength)"
| "findLoop (v # rest) i position currentLength =
     (if skipped v then findLoop rest (Suc i) position currentLength
      else if int currentLength \<le> position \<and> position < int currentLength + int (length v)
      then (Some (i, nat (position - int currentLength)), currentLength)
      else findLoop rest (Suc i) position (currentLength + length v))"

record node_offset =
  node :: "nat option"
  offset :: nat

text \<open>
  \<open>None\<close> is the \<open>null\<close> the function returns. In the fallback the source returns the
  loop variable, which is \<open>null\<close> once the walker is exhausted: \<open>node = None\<close>.
\<close>

definition findTextNodeAtPosition :: "jsstring list option \<Rightarrow> int \<Rightarrow> node_offset option" where
  "findTextNodeAtPosition element position =
     (case element of
        None \<Rightarrow> None
      | Some nodes \<Rightarrow>
          if position < 0 then None
          else (case findLoop nodes 0 position 0 of
                  (Some (foundNode, foundOffset), _) \<Rightarrow>
                    Some \<lparr>node = Some foundNode, offset = foundOffset\<rparr>
                | (None, currentLength) \<Rightarrow>
                    if currentLength > 0 then Some \<lparr>node = None, offset = 0\<rparr> else None))"

fun positionLoop :: "jsstring list \<Rightarrow> nat \<Rightarrow> nat \<Rightarrow> nat \<Rightarrow> nat" where
  "positionLoop [] i textNode currentLength = currentLength"
| "positionLoop (v # rest) i textNode currentLength =
     (if i = textNode then currentLength
      else if skipped v then positionLoop rest (Suc i) textNode currentLength
      else positionLoop rest (Suc i) textNode (currentLength + length v))"

definition getTextNodePosition :: "jsstring list option \<Rightarrow> nat option \<Rightarrow> nat" where
  "getTextNodePosition element textNode =
     (case element of
        None \<Rightarrow> 0
      | Some nodes \<Rightarrow> (case textNode of None \<Rightarrow> 0 | Some t \<Rightarrow> positionLoop nodes 0 t 0))"

text \<open>The total length of the text nodes that are not skipped.\<close>

definition textLength :: "jsstring list \<Rightarrow> nat" where
  "textLength nodes = sum_list (map length (filter (\<lambda>v. \<not> skipped v) nodes))"

subsection \<open>Debounced handlers\<close>

text \<open>
  \<open>debounce(fn, delay)\<close> (utils) keeps one timer: every call clears it and sets it again,
  \<open>delay\<close> milliseconds ahead. The state of a debounced handler is the time at which its
  pending timer is due, if one is pending.
\<close>

record debounced =
  delay :: nat
  timer :: "nat option"

definition debounce :: "nat \<Rightarrow> debounced" where
  "debounce d = \<lparr>delay = d, timer = None\<rparr>"

definition call_debounced :: "nat \<Rightarrow> debounced \<Rightarrow> debounced" where
  "call_debounced now h = h\<lparr>timer := Some (now + delay h)\<rparr>"

text \<open>
  The debounced handlers the extension installs: \<open>handleInput\<close> and \<open>repositionLogo\<close> of
  \<open>setupInputElement\<close>, \<open>handleWindowResize\<close> of the suggestions popup, \<open>debouncedCheck\<close> of
  \<open>initGrammarCheck\<close>, and \<open>setupDebounce\<close> of \<open>initDetailedGrammarCheck\<close>, which clears
  and sets its timer by hand.
\<close>

datatype handler = HandleInput | RepositionLogo | HandleWindowResize | DebouncedCheck | SetupDebounce

fun install :: "handler \<Rightarrow> debounced" where
  "install HandleInput = debounce 150"
| "install RepositionLogo = debounce 50"
| "install HandleWindowResize = debounce 100"
| "install DebouncedCheck = debounce 1000"
| "install SetupDebounce = debounce 1500"

text \<open>The window of a call: how long after the call its timer is due.\<close>

definition window :: "handler \<Rightarrow> nat \<Rightarrow> nat" where
  "window h now = (case timer (call_debounced now (install h)) of None \<Rightarrow> 0 | Some due \<Rightarrow> due - now)"

subsection \<open>Settings: configuration, storage and messages\<close>

text \<open>
  The page holds the two variables of config.js, the page's \<open>localStorage\<close> and the
  extension's synced storage \<open>chrome.storage.sync\<close>.
\<close>

record page =
  GEMINI_API_KEY :: jsstring
  GEMINI_API_URL :: jsstring
  localStorage :: "jsstring \<rightharpoonup> jsstring"
  syncStorage :: "jsstring \<rightharpoonup> jsstring"

definition apiUrlPrefix :: jsstring where
  "apiUrlPrefix = js ''https://generativelanguage.googleapis.com/v1beta/models/gemini-1.5-flash-latest:generateContent?key=''"

text \<open>\<open>updateApiKey\<close> (config.js): an empty key raises inside the \<open>try\<close> and yields \<open>false\<close>.\<close>

definition updateApiKey :: "jsstring \<Rightarrow> page \<Rightarrow> bool \<times> page" where
  "updateApiKey newKey p =
     (if newKey = [] then (False, p)
      else (True, p\<lparr>GEMINI_API_KEY := newKey, GEMINI_API_URL := apiUrlPrefix @ newKey\<rparr>))"

text \<open>
  \<open>reinitializeWithNewKey\<close> updates the key and runs the checks of the page again; of
  its effects only those on the configuration and the storage are kept here.
\<close>

definition reinitializeWithNewKey :: "jsstring \<Rightarrow> page \<Rightarrow> page" where
  "reinitializeWithNewKey apiKey p = snd (updateApiKey apiKey p)"

datatype message =
    API_KEY_UPDATED jsstring "jsstring option"
  | GRAMMAR_SETTINGS_UPDATED bool
  | OtherMessage

text \<open>The listener of \<open>chrome.runtime.onMessage\<close> in the content script.\<close>

fun onMessage :: "message \<Rightarrow> page \<Rightarrow> page" where
  "onMessage (API_KEY_UPDATED apiKey activeModel) p =
     (let p1 = (case activeModel of
                  None \<Rightarrow> p
                | Some m \<Rightarrow> if m = [] then p
                            else p\<lparr>localStorage := (localStorage p)(js ''activeModel'' \<mapsto> m)\<rparr>)
      in reinitializeWithNewKey apiKey p1)"
| "onMessage (GRAMMAR_SETTINGS_UPDATED enabled) p =
     p\<lparr>localStorage := (localStorage p)(js ''detailedGrammarCheckEnabled'' \<mapsto>
                           (if enabled then js ''true'' else js ''false''))\<rparr>"
| "onMessage OtherMessage p = p"

definition getActiveModel :: "page \<Rightarrow> jsstring" where
  "getActiveModel p =
     (case localStorage p (js ''activeModel'') of
        None \<Rightarrow> js ''gemini''
      | Some m \<Rightarrow> if m = [] then js ''gemini'' else m)"

text \<open>
  The save button of the popup writes the key and the model to the synced storage, and
  then sends \<open>API_KEY_UPDATED\<close> to the content scripts.
\<close>

definition saveKey_click :: "jsstring \<Rightarrow> jsstring \<Rightarrow> page \<Rightarrow> page" where
  "saveKey_click apiKeyInput activeModel p =
     (let apiKey = trim apiKeyInput in
      if apiKey = [] then p
      else onMessage (API_KEY_UPDATED apiKey (Some activeModel))
             (p\<lparr>syncStorage := (syncStorage p)(js ''googleApiKey'' \<mapsto> apiKey,
                                                js ''activeModel'' \<mapsto> activeModel)\<rparr>))"

definition page0 :: page where
  "page0 = \<lparr>GEMINI_API_KEY = [], GEMINI_API_URL = [], localStorage = Map.empty, syncStorage = Map.empty\<rparr>"

subsection \<open>JSON values, and the JavaScript operations the program applies to them\<close>

text \<open>
  The numbers of the model are the integers and \<open>NaN\<close>; fractions and infinities are left
  out. A JavaScript value that came out of \<open>JSON.parse\<close> is a \<open>json\<close>, and \<open>None\<close> stands
  for \<open>undefined\<close>. An object is the list of its properties.
\<close>

datatype jsnum = NaN | Num int

datatype json =
    JNull
  | JBool bool
  | JNum jsnum
  | JStr jsstring
  | JArr "json list"
  | JObj "(jsstring \<times> json) list"

type_synonym jsvalue = "json option"

text \<open>What the program can throw.\<close>

datatype exn =
    HttpError nat "jsstring option"
  | ErrorMessage jsstring
  | TypeError
  | SyntaxError
  | FetchFailed

definition thenE :: "exn + 'a \<Rightarrow> ('a \<Rightarrow> exn + 'b) \<Rightarrow> exn + 'b" where
  "thenE m f = (case m of Inl e \<Rightarrow> Inl e | Inr x \<Rightarrow> f x)"

fun mapE :: "('a \<Rightarrow> exn + 'b) \<Rightarrow> 'a list \<Rightarrow> exn + 'b list" where
  "mapE f [] = Inr []"
| "mapE f (x # xs) =
     (case f x of
        Inl e \<Rightarrow> Inl e
      | Inr y \<Rightarrow> (case mapE f xs of Inl e \<Rightarrow> Inl e | Inr ys \<Rightarrow> Inr (y # ys)))"

text \<open>
  A property read \<open>v.name\<close>, for the names the program reads (none of them is a property
  of a prototype, \<open>length\<close> apart): it throws on \<open>undefined\<close> and \<open>null\<close>.
\<close>

fun getProp :: "jsvalue \<Rightarrow> jsstring \<Rightarrow> exn + jsvalue" where
  "getProp None name = Inl TypeError"
| "getProp (Some JNull) name = Inl TypeError"
| "getProp (Some (JObj props)) name = Inr (map_of props name)"
| "getProp (Some (JArr xs)) name =
     Inr (if name = js ''length'' then Some (JNum (Num (int (length xs)))) else None)"
| "getProp (Some (JStr s)) name =
     Inr (if name = js ''length'' then Some (JNum (Num (int (length s)))) else None)"
| "getProp (Some (JBool b)) name = Inr None"
| "getProp (Some (JNum n)) name = Inr None"

text \<open>The element read \<open>v[0]\<close>.\<close>

fun item0 :: "jsvalue \<Rightarrow> exn + jsvalue" where
  "item0 None = Inl TypeError"
| "item0 (Some JNull) = Inl TypeError"
| "item0 (Some (JObj props)) = Inr (map_of props (js ''0''))"
| "item0 (Some (JArr xs)) = Inr (case xs of [] \<Rightarrow> None | x # _ \<Rightarrow> Some x)"
| "item0 (Some (JStr s)) = Inr (case s of [] \<Rightarrow> None | c # _ \<Rightarrow> Some (JStr [c]))"
| "item0 (Some (JBool b)) = Inr None"
| "item0 (Some (JNum n)) = Inr None"

fun truthy :: "jsvalue \<Rightarrow> bool" where
  "truthy None = False"
| "truthy (Some JNull) = False"
| "truthy (Some (JBool b)) = b"
| "truthy (Some (JNum n)) = (n \<noteq> NaN \<and> n \<noteq> Num 0)"
| "truthy (Some (JStr s)) = (s \<noteq> [])"
| "truthy (Some (JArr xs)) = True"
| "truthy (Some (JObj props)) = True"

fun isArray :: "jsvalue \<Rightarrow> bool" where
  "isArray (Some (JArr xs)) = True"
| "isArray _ = False"

text \<open>An assignment \<open>o.name = v\<close> to an object: the property keeps its place, or is added last.\<close>

fun setProp :: "(jsstring \<times> json) list \<Rightarrow> jsstring \<Rightarrow> json \<Rightarrow> (jsstring \<times> json) list" where
  "setProp [] name v = [(name, v)]"
| "setProp ((k, w) # props) name v =
     (if k = name then (k, v) # props else (k, w) # setProp props name v)"

fun MathMin :: "jsnum \<Rightarrow> jsnum \<Rightarrow> jsnum" where
  "MathMin (Num a) (Num b) = Num (min a b)"
| "MathMin _ _ = NaN"

fun MathMax :: "jsnum \<Rightarrow> jsnum \<Rightarrow> jsnum" where
  "MathMax (Num a) (Num b) = Num (max a b)"
| "MathMax _ _ = NaN"

fun numAdd :: "jsnum \<Rightarrow> jsnum \<Rightarrow> jsnum" where
  "numAdd (Num a) (Num b) = Num (a + b)"
| "numAdd _ _ = NaN"



text \<open>\<open>text.substring(a, b)\<close>: \<open>NaN\<close> counts as 0, both ends are clamped and put in order.\<close>

fun toIndex :: "jsnum \<Rightarrow> nat \<Rightarrow> nat" where
  "toIndex NaN len = 0"
| "toIndex (Num i) len = nat (min (max i 0) (int len))"

definition substring :: "jsstring \<Rightarrow> jsnum \<Rightarrow> jsnum \<Rightarrow> jsstring" where
  "substring s a b =
     (let x = toIndex a (length s); y = toIndex b (length s)
      in take (max x y - min x y) (drop (min x y) s))"

text \<open>\<open>text.indexOf(pat)\<close>, with \<open>None\<close> for \<open>-1\<close>.\<close>

fun indexFrom :: "jsstring \<Rightarrow> jsstring \<Rightarrow> nat \<Rightarrow> nat option" where
  "indexFrom pat [] i = (if pat = [] then Some i else None)"
| "indexFrom pat (c # cs) i =
     (if take (length pat) (c # cs) = pat then Some i else indexFrom pat cs (Suc i))"

definition indexOf :: "jsstring \<Rightarrow> jsstring \<Rightarrow> nat option" where
  "indexOf s pat = indexFrom pat s 0"

subsection \<open>The environment of an API call\<close>

record key_view =
  configKey :: "jsstring option"
  globalKey :: "jsstring option"

text \<open>The options of a \<open>fetch\<close>; \<open>httpMethod\<close> is its \<open>method\<close>.\<close>

record request =
  url :: jsstring
  httpMethod :: jsstring
  headers :: "(jsstring \<times> jsstring) list"
  body :: json
  timeoutMs :: nat

record response =
  ok :: bool
  status :: nat
  bodyText :: jsstring
  bodyJson :: "json option"

datatype fetched = Failed | Response response

text \<open>
  What an API call meets: what each attempt to read the key finds
  (\<open>GrammarSniperConfig.getApiKey()\<close> when the configuration object is there, and the
  variable \<open>GEMINI_API_KEY\<close> when it is declared), the URL of the configuration object,
  the outcome of \<open>fetch\<close> (\<open>Failed\<close> for a rejection: no network, or the timeout; \<open>bodyJson\<close>
  is \<open>None\<close> when the body is not JSON and \<open>response.json()\<close> rejects), and the built-ins
  \<open>JSON.parse\<close> (\<open>None\<close> when it throws) and the conversion to a number of a string, an
  array or an object.
\<close>

record env =
  keyAttempts :: "nat \<Rightarrow> key_view"
  getApiUrl :: "jsstring option"
  fetch :: "request \<Rightarrow> fetched"
  JSON_parse :: "jsstring \<Rightarrow> json option"
  ToNumber_other :: "json \<Rightarrow> jsnum"

datatype level = Log | Warn | Err

text \<open>
  A run of an asynchronous function: the fixed first argument of every console call it
  made, the requests it sent, and the value it returned (\<open>Inr\<close>) or threw (\<open>Inl\<close>).
\<close>

record 'a run =
  console :: "(level \<times> jsstring) list"
  requests :: "request list"
  outcome :: "exn + 'a"

text \<open>A key that is absent counts as the empty one: both are falsy.\<close>

definition keyOf :: "jsstring option \<Rightarrow> jsstring" where
  "keyOf k = (case k of None \<Rightarrow> [] | Some s \<Rightarrow> s)"

function getApiKeyLoop :: "(nat \<Rightarrow> key_view) \<Rightarrow> nat \<Rightarrow> nat \<Rightarrow> jsstring" where
  "getApiKeyLoop view maxRetries attempts =
     (if attempts < maxRetries then
        (if keyOf (configKey (view attempts)) \<noteq> [] then keyOf (configKey (view attempts))
         else if keyOf (globalKey (view attempts)) \<noteq> [] then keyOf (globalKey (view attempts))
         else getApiKeyLoop view maxRetries (Suc attempts))
      else [])"
  by pat_completeness auto
termination
  by (relation "measure (\<lambda>(view, maxRetries, attempts). maxRetries - attempts)") auto

declare getApiKeyLoop.simps [simp del]

definition getApiKeyWithRetry :: "env \<Rightarrow> jsstring" where
  "getApiKeyWithRetry e = getApiKeyLoop (keyAttempts e) 3 0"

definition apiUrl :: "env \<Rightarrow> jsstring \<Rightarrow> jsstring" where
  "apiUrl e apiKey = (case getApiUrl e of Some u \<Rightarrow> u | None \<Rightarrow> apiUrlPrefix @ apiKey)"

definition payload :: "jsstring \<Rightarrow> json" where
  "payload prompt =
     JObj [(js ''contents'', JArr [JObj [(js ''parts'', JArr [JObj [(js ''text'', JStr prompt)]])]])]"

definition post :: "jsstring \<Rightarrow> json \<Rightarrow> nat \<Rightarrow> request" where
  "post u b t =
     \<lparr>url = u, httpMethod = js ''POST'',
      headers = [(js ''Content-Type'', js ''application/json'')], body = b, timeoutMs = t\<rparr>"

text \<open>
  \<open>data.candidates[0].content.parts[0].text\<close>, after the check that there are candidates,
  which throws the message given.
\<close>

definition candidateText :: "json \<Rightarrow> jsstring \<Rightarrow> exn + jsvalue" where
  "candidateText data message =
     thenE (getProp (Some data) (js ''candidates'')) (\<lambda>candidates.
       if \<not> truthy candidates \<or> getProp candidates (js ''length'') = Inr (Some (JNum (Num 0)))
       then Inl (ErrorMessage message)
       else thenE (item0 candidates) (\<lambda>c0.
            thenE (getProp c0 (js ''content'')) (\<lambda>content.
            thenE (getProp content (js ''parts'')) (\<lambda>parts.
            thenE (item0 parts) (\<lambda>p0.
            getProp p0 (js ''text''))))))"

subsection \<open>Reading a numbered list (api.js, lines 114 to 141)\<close>

definition isDigit :: "jschar \<Rightarrow> bool" where
  "isDigit c \<longleftrightarrow> 48 \<le> c \<and> c \<le> 57"

text \<open>
  Under the flag \<open>i\<close> (without \<open>u\<close>) an ASCII letter of the pattern matches that letter
  in either case and nothing else: \<open>[A-Z]\<close> is the ASCII letters, and a literal is compared
  after putting ASCII letters in upper case.
\<close>

definition isLetter :: "jschar \<Rightarrow> bool" where
  "isLetter c \<longleftrightarrow> (65 \<le> c \<and> c \<le> 90) \<or> (97 \<le> c \<and> c \<le> 122)"

definition upper :: "jschar \<Rightarrow> jschar" where
  "upper c = (if 97 \<le> c \<and> c \<le> 122 then c - 32 else c)"

definition startsWithI :: "jsstring \<Rightarrow> jsstring \<Rightarrow> bool" where
  "startsWithI lit s \<longleftrightarrow> map upper (take (length lit) s) = map upper lit"

text \<open>\<open>text.split('\n')\<close>\<close>

fun splitLines :: "jsstring \<Rightarrow> jsstring list" where
  "splitLines [] = [[]]"
| "splitLines (c # cs) =
     (if c = 10 then [] # splitLines cs
      else (case splitLines cs of [] \<Rightarrow> [[c]] | l # ls \<Rightarrow> (c # l) # ls))"

text \<open>The length of the match of \<open>/^\d+\.\s/\<close>, if the line has one.\<close>

definition numberPrefix :: "jsstring \<Rightarrow> nat option" where
  "numberPrefix line =
     (case dropWhile isDigit line of
        d # w # _ \<Rightarrow>
          if takeWhile isDigit line \<noteq> [] \<and> d = 46 \<and> isWhiteSpace w
          then Some (length (takeWhile isDigit line) + 2) else None
      | _ \<Rightarrow> None)"

definition numbered :: "jsstring \<Rightarrow> bool" where
  "numbered line \<longleftrightarrow> numberPrefix line \<noteq> None"

definition removeNumber :: "jsstring \<Rightarrow> jsstring" where
  "removeNumber line = (case numberPrefix line of None \<Rightarrow> line | Some n \<Rightarrow> drop n line)"

text \<open>\<open>/\*\*/g\<close>\<close>

fun removeBold :: "jsstring \<Rightarrow> jsstring" where
  "removeBold (a # b # cs) = (if a = 42 \<and> b = 42 then removeBold cs else a # removeBold (b # cs))"
| "removeBold cs = cs"

text \<open>
  \<open>/^(?:Grammatically corrected version:|Alternative version \d+:|[^:]+:)\s*/i\<close>: the length
  of what the first alternative that matches takes, before the white space.
\<close>

definition labelPrefix :: "jsstring \<Rightarrow> nat option" where
  "labelPrefix line =
     (if startsWithI (js ''Grammatically corrected version:'') line
      then Some (length (js ''Grammatically corrected version:''))
      else if startsWithI (js ''Alternative version '') line
              \<and> takeWhile isDigit (drop (length (js ''Alternative version '')) line) \<noteq> []
              \<and> take 1 (dropWhile isDigit (drop (length (js ''Alternative version '')) line)) = [58]
      then Some (length (js ''Alternative version '')
                 + length (takeWhile isDigit (drop (length (js ''Alternative version '')) line)) + 1)
      else if takeWhile (\<lambda>c. c \<noteq> 58) line \<noteq> [] \<and> dropWhile (\<lambda>c. c \<noteq> 58) line \<noteq> []
      then Some (length (takeWhile (\<lambda>c. c \<noteq> 58) line) + 1)
      else None)"

definition removeLabel :: "jsstring \<Rightarrow> jsstring" where
  "removeLabel line =
     (case labelPrefix line of None \<Rightarrow> line | Some n \<Rightarrow> dropWhile isWhiteSpace (drop n line))"

text \<open>
  \<open>/\s*\([^)]+\)/g\<close>: \<open>parenMatch s\<close> is what follows the match when there is one at the
  start of \<open>s\<close>; the replacement goes on after each match.
\<close>

definition parenMatch :: "jsstring \<Rightarrow> jsstring option" where
  "parenMatch s =
     (case dropWhile isWhiteSpace s of
        [] \<Rightarrow> None
      | c # t \<Rightarrow>
          if c = 40 \<and> takeWhile (\<lambda>x. x \<noteq> 41) t \<noteq> [] \<and> dropWhile (\<lambda>x. x \<noteq> 41) t \<noteq> []
          then Some (tl (dropWhile (\<lambda>x. x \<noteq> 41) t)) else None)"

lemma parenMatch_shorter: "parenMatch s = Some r \<Longrightarrow> length r < length s"
proof -
  assume a: "parenMatch s = Some r"
  then obtain c t where ct: "dropWhile isWhiteSpace s = c # t"
    and r: "r = tl (dropWhile (\<lambda>x. x \<noteq> 41) t)"
    by (auto simp: parenMatch_def split: list.splits if_splits)
  have "length r \<le> length t"
    unfolding r using length_dropWhile_le [of "\<lambda>x. x \<noteq> 41" t] by simp
  moreover have "length (c # t) \<le> length s"
    using length_dropWhile_le [of isWhiteSpace s] ct by simp
  ultimately show ?thesis by simp
qed

function removeParens :: "jsstring \<Rightarrow> jsstring" where
  "removeParens [] = []"
| "removeParens (c # cs) =
     (case parenMatch (c # cs) of
        Some r \<Rightarrow> removeParens r
      | None \<Rightarrow> c # removeParens cs)"
  by pat_completeness auto
termination
  by (relation "measure length") (auto dest: parenMatch_shorter)

text \<open>\<open>/[\[\]]/g\<close>\<close>

definition removeBrackets :: "jsstring \<Rightarrow> jsstring" where
  "removeBrackets line = filter (\<lambda>c. c \<noteq> 91 \<and> c \<noteq> 93) line"

text \<open>
  \<open>/\.\s+(?:[A-Z][^.]*|This[^.]*|Here[^.]*|The[^.]*)$/i\<close>, replaced once by a period:
  \<open>explanation s\<close> says that the pattern matches at the start of \<open>s\<close>.
\<close>

definition explanationTail :: "jsstring \<Rightarrow> bool" where
  "explanationTail r \<longleftrightarrow>
     (r \<noteq> [] \<and> isLetter (hd r) \<and> 46 \<notin> set (tl r))
     \<or> (startsWithI (js ''This'') r \<and> 46 \<notin> set (drop 4 r))
     \<or> (startsWithI (js ''Here'') r \<and> 46 \<notin> set (drop 4 r))
     \<or> (startsWithI (js ''The'') r \<and> 46 \<notin> set (drop 3 r))"

definition explanation :: "jsstring \<Rightarrow> bool" where
  "explanation s \<longleftrightarrow>
     (case s of
        [] \<Rightarrow> False
      | c # t \<Rightarrow> c = 46 \<and> takeWhile isWhiteSpace t \<noteq> [] \<and> explanationTail (dropWhile isWhiteSpace t))"

fun removeExplanation :: "jsstring \<Rightarrow> jsstring" where
  "removeExplanation [] = []"
| "removeExplanation (c # cs) =
     (if explanation (c # cs) then [46] else c # removeExplanation cs)"

text \<open>\<open>/^["']|["']$/g\<close>\<close>

definition isQuote :: "jschar \<Rightarrow> bool" where
  "isQuote c \<longleftrightarrow> c = 34 \<or> c = 39"

definition removeQuotes :: "jsstring \<Rightarrow> jsstring" where
  "removeQuotes line =
     (let l1 = (if line \<noteq> [] \<and> isQuote (hd line) then tl line else line)
      in if l1 \<noteq> [] \<and> isQuote (last l1) then butlast l1 else l1)"

text \<open>\<open>/\s+/g\<close> replaced by one space\<close>

function collapseSpaces :: "jsstring \<Rightarrow> jsstring" where
  "collapseSpaces [] = []"
| "collapseSpaces (c # cs) =
     (if isWhiteSpace c then 32 # collapseSpaces (dropWhile isWhiteSpace cs)
      else c # collapseSpaces cs)"
  by pat_completeness auto
termination
  by (relation "measure length") (auto simp: length_dropWhile_le less_Suc_eq_le)

definition terminal :: "jschar \<Rightarrow> bool" where
  "terminal c \<longleftrightarrow> c = 46 \<or> c = 33 \<or> c = 63"

definition endPunctuation :: "jsstring \<Rightarrow> jsstring" where
  "endPunctuation line = (if line \<noteq> [] \<and> terminal (last line) then line else line @ [46])"

text \<open>The callback of \<open>map\<close>, step by step as the source has it.\<close>

definition cleanLine :: "jsstring \<Rightarrow> jsstring" where
  "cleanLine line =
     endPunctuation (collapseSpaces (trim (removeQuotes (removeExplanation (removeBrackets
       (removeParens (removeLabel (removeBold (removeNumber line)))))))))"

definition parseSuggestions :: "jsstring \<Rightarrow> jsstring list" where
  "parseSuggestions suggestionsText =
     filter (\<lambda>line. length line > 0) (map cleanLine (filter numbered (splitLines suggestionsText)))"

subsection \<open>The three API operations (api.js)\<close>

definition suggestionsPrompt :: "jsstring \<Rightarrow> jsstring" where
  "suggestionsPrompt text =
        js ''Review and correct any grammar, spelling, or style issues in the following text. Then provide 3 alternative ways to express the same content more clearly and professionally.\<newline>''
      @ js ''\<newline>''
      @ js ''Original text: \"''
      @ text
      @ js ''\"\<newline>''
      @ js ''\<newline>''
      @ js ''Format your response EXACTLY as follows - a numbered list of 4 items without quotes, markdown, or any explanations:\<newline>''
      @ js ''1. [grammatically corrected version]\<newline>''
      @ js ''2. [professional alternative 1]\<newline>''
      @ js ''3. [clear alternative 2]\<newline>''
      @ js ''4. [impactful alternative 3]\<newline>''
      @ js ''\<newline>''
      @ js ''IMPORTANT:\<newline>''
      @ js ''- Do NOT include quotes, explanations, or labels in your response\<newline>''
      @ js ''- Do NOT include trailing periods like \"They proceeded down the street.\"\<newline>''
      @ js ''- Do NOT include any formatting or markdown\<newline>''
      @ js ''- Just provide the plain text alternatives\<newline>''
      @ js ''- Each suggestion should be grammatically complete\<newline>''
      @ js ''- Never explain what you changed or why''"

definition sentimentPrompt :: "jsstring \<Rightarrow> jsstring" where
  "sentimentPrompt text =
        js ''Analyze the sentiment/tone of the following text and categorize it as exactly one of these options: Confident, Friendly, Formal, Casual, Optimistic, Neutral, Tentative, Concerned, Joyful, or Forceful. Also provide a matching emoji.\<newline>''
      @ js ''\<newline>''
      @ js ''Text: \"''
      @ text
      @ js ''\"\<newline>''
      @ js ''\<newline>''
      @ js ''Format your response exactly like this example:\<newline>''
      @ js ''Sentiment: Confident\<newline>''
      @ js ''Emoji: ''
      @ [240, 376, 8217, 170]
      @ js ''\<newline>''
      @ js ''\<newline>''
      @ js ''Only return those two lines, nothing else.''"

definition detailsPrompt :: "jsstring \<Rightarrow> jsstring" where
  "detailsPrompt text =
        js ''Act as a professional grammar checker. Analyze the following text for grammar, spelling, style, and word choice errors. Pay special attention to character positions.\<newline>''
      @ js ''\<newline>''
      @ js ''Text to analyze: \"''
      @ text
      @ js ''\"\<newline>''
      @ js ''\<newline>''
      @ js ''Format your response using this exact JSON structure, with no additional text:\<newline>''
      @ js ''{\<newline>''
      @ js ''  \"words_with_mistakes\": [\<newline>''
      @ js ''    {\<newline>''
      @ js ''      \"text\": \"incorrect text\",\<newline>''
      @ js ''      \"suggestion\": \"corrected text\",\<newline>''
      @ js ''      \"mistake_type\": \"grammar|spelling|style|word choice\",\<newline>''
      @ js ''      \"start_index\": 0,\<newline>''
      @ js ''      \"end_index\": 0\<newline>''
      @ js ''    }\<newline>''
      @ js ''  ]\<newline>''
      @ js ''}\<newline>''
      @ js ''\<newline>''
      @ js ''IMPORTANT RULES for start_index and end_index:\<newline>''
      @ js ''1. Count characters from 0, including spaces and punctuation\<newline>''
      @ js ''2. start_index should be the exact position where the incorrect word/phrase begins\<newline>''
      @ js ''3. end_index should be the position after the last character of the incorrect word/phrase\<newline>''
      @ js ''4. Double-check that text[start_index:end_index] exactly matches the incorrect text\<newline>''
      @ js ''5. Verify indices by ensuring end_index - start_index equals the length of the incorrect text\<newline>''
      @ js ''\<newline>''
      @ js ''Example: For \"They was walking\", if \"was\" is incorrect:\<newline>''
      @ js ''- start_index would be 5 (position of 'w' in \"was\")\<newline>''
      @ js ''- end_index would be 8 (position after 's' in \"was\")\<newline>''
      @ js ''\<newline>''
      @ js ''Return an empty words_with_mistakes array if no issues are found.\<newline>''
      @ js ''Give 3-5 errors maximum to avoid overwhelming the user.''"

definition noKeyMessage :: jsstring where
  "noKeyMessage = js ''No API key set. Please set your API key in the extension settings.''"

text \<open>The body of the \<open>try\<close> of \<open>getGrammarSuggestions\<close>.\<close>

definition getGrammarSuggestions_try :: "env \<Rightarrow> jsstring \<Rightarrow> jsstring list run" where
  "getGrammarSuggestions_try e text =
     (let log0 = [(Log, js ''Getting grammar suggestions for text:'')];
          apiKey = getApiKeyWithRetry e
      in if apiKey = [] then
           \<lparr>console = log0 @ [(Warn, js ''API key not set. Please set your Google API key in the extension popup.'')],
            requests = [], outcome = Inr [noKeyMessage]\<rparr>
         else
           (let req = post (apiUrl e apiKey) (payload (suggestionsPrompt text)) 30000;
                log1 = log0 @ [(Log, js ''Sending API request'')]
            in case fetch e req of
                 Failed \<Rightarrow> \<lparr>console = log1, requests = [req], outcome = Inl FetchFailed\<rparr>
               | Response r \<Rightarrow>
                   (let log2 = log1 @ [(Log, js ''Received API response with status:'')]
                    in if \<not> ok r then
                         \<lparr>console = log2, requests = [req],
                          outcome = Inl (HttpError (status r) (Some (bodyText r)))\<rparr>
                       else (case bodyJson r of
                           None \<Rightarrow> \<lparr>console = log2, requests = [req], outcome = Inl SyntaxError\<rparr>
                         | Some data \<Rightarrow>
                             (let log3 = log2 @ [(Log, js ''Parsed API response data:'')]
                              in case candidateText data (js ''No candidates returned from API'') of
                                   Inl x \<Rightarrow> \<lparr>console = log3, requests = [req], outcome = Inl x\<rparr>
                                 | Inr (Some (JStr suggestionsText)) \<Rightarrow>
                                     \<lparr>console = log3 @ [(Log, js ''Raw suggestions text:''),
                                                         (Log, js ''Parsed and cleaned suggestion lines:'')],
                                      requests = [req],
                                      outcome = Inr (parseSuggestions suggestionsText)\<rparr>
                                 | Inr _ \<Rightarrow>
                                     \<lparr>console = log3 @ [(Log, js ''Raw suggestions text:'')],
                                      requests = [req], outcome = Inl TypeError\<rparr>)))))"

text \<open>Its \<open>catch\<close> logs the error and throws it again.\<close>

definition getGrammarSuggestions :: "env \<Rightarrow> jsstring \<Rightarrow> jsstring list run" where
  "getGrammarSuggestions e text =
     (let r = getGrammarSuggestions_try e text
      in case outcome r of
           Inr v \<Rightarrow> r
         | Inl x \<Rightarrow> r\<lparr>console := console r @ [(Err, js ''Error getting grammar suggestions:'')],
                       outcome := Inl x\<rparr>)"

record tone =
  sentiment :: jsstring
  emoji :: jsstring

definition neutral :: tone where
  "neutral = \<lparr>sentiment = js ''Neutral'', emoji = [240, 376, 732]\<rparr>"

text \<open>
  \<open>result.match(/Sentiment: (.*)/)\<close>: the first place where the literal stands, and what
  follows it on its line.
\<close>

definition isLineTerminator :: "jschar \<Rightarrow> bool" where
  "isLineTerminator c \<longleftrightarrow> c = 10 \<or> c = 13 \<or> c = 8232 \<or> c = 8233"

fun matchAfter :: "jsstring \<Rightarrow> jsstring \<Rightarrow> jsstring option" where
  "matchAfter lit [] = (if lit = [] then Some [] else None)"
| "matchAfter lit (c # cs) =
     (if take (length lit) (c # cs) = lit
      then Some (takeWhile (\<lambda>x. \<not> isLineTerminator x) (drop (length lit) (c # cs)))
      else matchAfter lit cs)"

definition analyzeSentiment_try :: "env \<Rightarrow> jsstring \<Rightarrow> tone run" where
  "analyzeSentiment_try e text =
     (let apiKey = getApiKeyWithRetry e
      in if apiKey = [] then
           \<lparr>console = [(Warn, js ''API key not set. Using default sentiment.'')],
            requests = [], outcome = Inr neutral\<rparr>
         else
           (let req = post (apiUrl e apiKey) (payload (sentimentPrompt text)) 15000
            in case fetch e req of
                 Failed \<Rightarrow> \<lparr>console = [], requests = [req], outcome = Inl FetchFailed\<rparr>
               | Response r \<Rightarrow>
                   if \<not> ok r then
                     \<lparr>console = [], requests = [req], outcome = Inl (HttpError (status r) None)\<rparr>
                   else (case bodyJson r of
                       None \<Rightarrow> \<lparr>console = [], requests = [req], outcome = Inl SyntaxError\<rparr>
                     | Some data \<Rightarrow>
                         (case candidateText data (js ''No sentiment analysis returned'') of
                            Inl x \<Rightarrow> \<lparr>console = [], requests = [req], outcome = Inl x\<rparr>
                          | Inr (Some (JStr result)) \<Rightarrow>
                              \<lparr>console = [], requests = [req],
                               outcome = Inr
                                 \<lparr>sentiment = (case matchAfter (js ''Sentiment: '') result of
                                                 Some m \<Rightarrow> trim m | None \<Rightarrow> sentiment neutral),
                                  emoji = (case matchAfter (js ''Emoji: '') result of
                                             Some m \<Rightarrow> trim m | None \<Rightarrow> emoji neutral)\<rparr>\<rparr>
                          | Inr _ \<Rightarrow> \<lparr>console = [], requests = [req], outcome = Inl TypeError\<rparr>))))"

text \<open>Its \<open>catch\<close> logs the error and returns the neutral tone.\<close>

definition analyzeSentiment :: "env \<Rightarrow> jsstring \<Rightarrow> tone run" where
  "analyzeSentiment e text =
     (let r = analyzeSentiment_try e text
      in case outcome r of
           Inr v \<Rightarrow> r
         | Inl x \<Rightarrow> r\<lparr>console := console r @ [(Err, js ''Error analyzing sentiment:'')],
                       outcome := Inr neutral\<rparr>)"

definition noMistakes :: json where
  "noMistakes = JObj [(js ''words_with_mistakes'', JArr [])]"

text \<open>
  \<open>responseText.match(/\{[\s\S]*\}/)\<close>: from the first opening brace to the last closing
  brace after it.
\<close>

definition matchBraces :: "jsstring \<Rightarrow> jsstring option" where
  "matchBraces s =
     (let r = dropWhile (\<lambda>c. c \<noteq> 125) (rev (dropWhile (\<lambda>c. c \<noteq> 123) s))
      in if r = [] then None else Some (rev r))"

text \<open>
  The conversion to a number that \<open>Math.min\<close> applies to its argument: \<open>undefined\<close> is
  \<open>NaN\<close>, \<open>null\<close> is 0.
\<close>

definition ToNumber :: "env \<Rightarrow> jsvalue \<Rightarrow> jsnum" where
  "ToNumber e v =
     (case v of
        None \<Rightarrow> NaN
      | Some JNull \<Rightarrow> Num 0
      | Some (JBool b) \<Rightarrow> Num (if b then 1 else 0)
      | Some (JNum n) \<Rightarrow> n
      | Some other \<Rightarrow> ToNumber_other e other)"

text \<open>
  The callback that validates and fixes the indices of one mistake (lines 332 to 349).
  Only on an object whose \<open>text\<close> is a string does \<open>mistake.text.trim()\<close> not throw.
\<close>

definition fixMistake :: "env \<Rightarrow> jsstring \<Rightarrow> json \<Rightarrow> exn + json" where
  "fixMistake e text mistake =
     (case mistake of
        JObj props \<Rightarrow>
          (let start_index =
                 MathMax (Num 0) (MathMin (ToNumber e (map_of props (js ''start_index'')))
                                          (Num (int (length text) - 1)));
               props1 = setProp props (js ''start_index'') (JNum start_index);
               end_index =
                 MathMax (numAdd start_index (Num 1))
                         (MathMin (ToNumber e (map_of props1 (js ''end_index'')))
                                  (Num (int (length text))));
               props2 = setProp props1 (js ''end_index'') (JNum end_index);
               extractedText = substring text start_index end_index
           in case map_of props2 (js ''text'') of
                Some (JStr mistakeText) \<Rightarrow>
                  if trim extractedText \<noteq> trim mistakeText then
                    (case indexOf text mistakeText of
                       Some position \<Rightarrow>
                         Inr (JObj (setProp (setProp props2 (js ''start_index'') (JNum (Num (int position))))
                                      (js ''end_index'')
                                      (JNum (Num (int position + int (length mistakeText))))))
                     | None \<Rightarrow> Inr (JObj props2))
                  else Inr (JObj props2)
              | _ \<Rightarrow> Inl TypeError)
      | _ \<Rightarrow> Inl TypeError)"

definition checkGrammarWithDetails_try :: "env \<Rightarrow> jsstring \<Rightarrow> json run" where
  "checkGrammarWithDetails_try e text =
     (let log0 = [(Log, js ''Checking grammar with detailed response for text:'')];
          apiKey = getApiKeyWithRetry e
      in if apiKey = [] then
           \<lparr>console = log0 @ [(Warn, js ''API key not set. Skipping detailed grammar check.'')],
            requests = [], outcome = Inr noMistakes\<rparr>
         else
           (let req = post (apiUrl e apiKey) (payload (detailsPrompt text)) 30000;
                log1 = log0 @ [(Log, js ''Sending API request to:'')]
            in case fetch e req of
                 Failed \<Rightarrow> \<lparr>console = log1, requests = [req], outcome = Inl FetchFailed\<rparr>
               | Response r \<Rightarrow>
                   (let log2 = log1 @ [(Log, js ''Received API response with status:'')]
                    in if \<not> ok r then
                         \<lparr>console = log2, requests = [req],
                          outcome = Inl (HttpError (status r) (Some (bodyText r)))\<rparr>
                       else (case bodyJson r of
                           None \<Rightarrow> \<lparr>console = log2, requests = [req], outcome = Inl SyntaxError\<rparr>
                         | Some data \<Rightarrow>
                             (let log3 = log2 @ [(Log, js ''Parsed API response data:'')]
                              in case candidateText data (js ''No candidates returned from API'') of
                                   Inl x \<Rightarrow> \<lparr>console = log3, requests = [req], outcome = Inl x\<rparr>
                                 | Inr (Some (JStr responseText)) \<Rightarrow>
                                     (case matchBraces responseText of
                                        None \<Rightarrow>
                                          \<lparr>console = log3, requests = [req],
                                           outcome = Inl (ErrorMessage (js ''Could not extract JSON from response''))\<rparr>
                                      | Some jsonMatch \<Rightarrow>
                                          (case JSON_parse e jsonMatch of
                                             None \<Rightarrow> \<lparr>console = log3, requests = [req], outcome = Inl SyntaxError\<rparr>
                                           | Some (JObj props) \<Rightarrow>
                                               if \<not> truthy (map_of props (js ''words_with_mistakes''))
                                                  \<or> \<not> isArray (map_of props (js ''words_with_mistakes''))
                                               then \<lparr>console = log3 @ [(Err, js ''Invalid response structure:'')],
                                                     requests = [req], outcome = Inr noMistakes\<rparr>
                                               else (case map_of props (js ''words_with_mistakes'') of
                                                       Some (JArr mistakes) \<Rightarrow>
                                                         \<lparr>console = log3, requests = [req],
                                                          outcome = thenE (mapE (fixMistake e text) mistakes) (\<lambda>fixed.
                                                            Inr (JObj (setProp props (js ''words_with_mistakes'') (JArr fixed))))\<rparr>
                                                     | _ \<Rightarrow> \<lparr>console = log3, requests = [req], outcome = Inl TypeError\<rparr>)
                                           | Some JNull \<Rightarrow> \<lparr>console = log3, requests = [req], outcome = Inl TypeError\<rparr>
                                           | Some _ \<Rightarrow>
                                               \<lparr>console = log3 @ [(Err, js ''Invalid response structure:'')],
                                                requests = [req], outcome = Inr noMistakes\<rparr>))
                                 | Inr _ \<Rightarrow> \<lparr>console = log3, requests = [req], outcome = Inl TypeError\<rparr>)))))"

text \<open>Its \<open>catch\<close> logs the error and returns an empty list of mistakes.\<close>

definition checkGrammarWithDetails :: "env \<Rightarrow> jsstring \<Rightarrow> json run" where
  "checkGrammarWithDetails e text =
     (let r = checkGrammarWithDetails_try e text
      in case outcome r of
           Inr v \<Rightarrow> r
         | Inl x \<Rightarrow> r\<lparr>console := console r @ [(Err, js ''Error checking grammar with details:'')],
                       outcome := Inr noMistakes\<rparr>)"

subsection \<open>The cached grammar check (grammarCheck.js, lines 7 to 163)\<close>

record grammar_error =
  error :: jsstring
  suggestion :: jsstring
  type :: json
  startPos :: jsnum
  endPos :: jsnum

record cache_entry =
  errors :: "grammar_error list"
  timestamp :: int

type_synonym cache = "jsstring \<rightharpoonup> cache_entry"



text \<open>
  A call of \<open>checkGrammar\<close>: \<open>now1\<close> and \<open>now2\<close> are what \<open>Date.now()\<close> gives at the lookup
  and at the store. It yields what is returned, the cache afterwards, and the runs of
  \<open>checkGrammarWithDetails\<close> it awaited.
\<close>

record checked =
  returned :: "grammar_error list"
  cacheAfter :: cache
  apiRuns :: "json run list"



subsection \<open>Loading the API key (config.js, lines 51 to 158)\<close>

text \<open>
  \<open>loadApiKey\<close> returns a promise and works through timers and the callback of
  \<open>chrome.storage.sync.get\<close>, so it is modelled by the handlers it installs and the
  events that run them. A call of \<open>tryLoadApiKey\<close> meets one of: \<open>chrome\<close> not declared
  (a ReferenceError, caught), a falsy \<open>chrome\<close>, \<open>chrome.runtime\<close> or \<open>chrome.storage\<close>,
  an undefined \<open>chrome.runtime.id\<close>, a \<open>get\<close> that throws (after the timer was set), or
  a \<open>get\<close> that is accepted.
\<close>

datatype chrome_apis = Undeclared | Unavailable | Invalidated | GetThrows | Available

text \<open>
  What the callback of \<open>get\<close> meets. It runs outside any \<open>try\<close>, clears the timer of its
  attempt and then reads \<open>chrome.runtime.lastError\<close>: when \<open>chrome\<close> or \<open>chrome.runtime\<close> is gone by then
  that read throws and the callback ends there. Otherwise it finds \<open>lastError\<close> set, or
  a result with its \<open>googleApiKey\<close> if it has one.
\<close>

datatype get_result = CallbackThrows | LastError | Result "jsstring option"

text \<open>
  The events: the 5 s timer of an attempt fires (and, if it retries, what the new call
  of \<open>tryLoadApiKey\<close> meets), a 1 s retry timer fires, the storage calls back for an
  attempt.
\<close>

datatype event =
    Timeout nat chrome_apis
  | Retry chrome_apis
  | Callback nat get_result

datatype promise = Pending | Resolved bool | Rejected

text \<open>
  The state: the variable \<open>retryCount\<close>, the number of calls of \<open>tryLoadApiKey\<close> so
  far, the attempts whose 5 s timer is pending, the number of pending 1 s timers, the
  attempts whose request has not called back, the promise, the configuration, and the
  console. An attempt is named by the number of calls made before it.
\<close>

record loader =
  retryCount :: nat
  attempts :: nat
  timeouts :: "nat list"
  retries :: nat
  inFlight :: "nat list"
  promiseState :: promise
  config :: page
  logged :: "(level \<times> jsstring) list"

definition maxRetries :: nat where
  "maxRetries = 3"

text \<open>\<open>resolve(b)\<close>: only the first call settles the promise.\<close>

definition resolve :: "bool \<Rightarrow> loader \<Rightarrow> loader" where
  "resolve b s = (if promiseState s = Pending then s\<lparr>promiseState := Resolved b\<rparr> else s)"

definition say :: "level \<Rightarrow> jsstring \<Rightarrow> loader \<Rightarrow> loader" where
  "say lv m s = s\<lparr>logged := logged s @ [(lv, m)]\<rparr>"

text \<open>
  The block the source repeats in the callback and in the \<open>catch\<close>: count a retry and
  set a 1 s timer for \<open>tryLoadApiKey\<close>, or resolve \<open>false\<close> when the retries are used up.
\<close>

definition retryLater :: "loader \<Rightarrow> loader" where
  "retryLater s =
     (if retryCount s < maxRetries then
        say Log (js ''Retrying API key load'')
          (s\<lparr>retryCount := retryCount s + 1, retries := retries s + 1\<rparr>)
      else resolve False s)"

definition tryLoadApiKey :: "chrome_apis \<Rightarrow> loader \<Rightarrow> loader" where
  "tryLoadApiKey c s =
     (let s1 = s\<lparr>attempts := attempts s + 1\<rparr>; timeoutId = attempts s
      in case c of
           Undeclared \<Rightarrow> retryLater (say Err (js ''Critical error loading API key:'') s1)
         | Unavailable \<Rightarrow> resolve False (say Warn (js ''Chrome APIs not available'') s1)
         | Invalidated \<Rightarrow> resolve False (say Warn (js ''Extension context invalidated'') s1)
         | GetThrows \<Rightarrow>
             retryLater (say Err (js ''Critical error loading API key:'')
               (s1\<lparr>timeouts := timeoutId # timeouts s1\<rparr>))
         | Available \<Rightarrow>
             s1\<lparr>timeouts := timeoutId # timeouts s1, inFlight := timeoutId # inFlight s1\<rparr>)"

text \<open>The 5 s timer: it retries at once, without a timer of its own.\<close>

definition onTimeout :: "nat \<Rightarrow> chrome_apis \<Rightarrow> loader \<Rightarrow> loader" where
  "onTimeout timeoutId c s =
     (let s1 = say Warn (js ''API key loading timed out'') (s\<lparr>timeouts := remove1 timeoutId (timeouts s)\<rparr>)
      in if retryCount s1 < maxRetries then
           tryLoadApiKey c (say Log (js ''Retrying API key load'') (s1\<lparr>retryCount := retryCount s1 + 1\<rparr>))
         else resolve False s1)"

definition onRetry :: "chrome_apis \<Rightarrow> loader \<Rightarrow> loader" where
  "onRetry c s = tryLoadApiKey c (s\<lparr>retries := retries s - 1\<rparr>)"

text \<open>
  The callback of \<open>get\<close>: it clears the timer of its attempt, whether or not that timer
  has fired already.
\<close>

definition onCallback :: "nat \<Rightarrow> get_result \<Rightarrow> loader \<Rightarrow> loader" where
  "onCallback timeoutId res s =
     (let s1 = s\<lparr>inFlight := remove1 timeoutId (inFlight s), timeouts := remove1 timeoutId (timeouts s)\<rparr>
      in case res of
           CallbackThrows \<Rightarrow> s1
         | LastError \<Rightarrow> retryLater (say Err (js ''Chrome runtime error:'') s1)
         | Result stored \<Rightarrow>
             if keyOf stored \<noteq> [] then
               (let s2 = s1\<lparr>config := snd (updateApiKey (keyOf stored) (config s1))\<rparr>
                in if fst (updateApiKey (keyOf stored) (config s1)) then
                     (if GEMINI_API_KEY (config s2) \<noteq> [] \<and> GEMINI_API_KEY (config s2) = keyOf stored
                      then resolve True (say Log (js ''API key loaded and verified'') s2)
                      else retryLater (say Warn (js ''API key verification failed'') s2))
                   else retryLater (say Warn (js ''Failed to update API key'') s2))
             else resolve False (say Warn (js ''No API key found in storage'') s1))"

text \<open>
  An event can happen when its timer is pending, or its request in flight; an event
  that cannot happen changes nothing.
\<close>

fun enabled :: "event \<Rightarrow> loader \<Rightarrow> bool" where
  "enabled (Timeout timeoutId c) s = (timeoutId \<in> set (timeouts s))"
| "enabled (Retry c) s = (0 < retries s)"
| "enabled (Callback timeoutId res) s = (timeoutId \<in> set (inFlight s))"

fun handle :: "event \<Rightarrow> loader \<Rightarrow> loader" where
  "handle (Timeout timeoutId c) s = onTimeout timeoutId c s"
| "handle (Retry c) s = onRetry c s"
| "handle (Callback timeoutId res) s = onCallback timeoutId res s"

definition fire :: "event \<Rightarrow> loader \<Rightarrow> loader" where
  "fire ev s = (if enabled ev s then handle ev s else s)"

fun runFrom :: "loader \<Rightarrow> event list \<Rightarrow> loader" where
  "runFrom s [] = s"
| "runFrom s (ev # evs) = runFrom (fire ev s) evs"

text \<open>The number of events of a run that did happen.\<close>

fun steps :: "loader \<Rightarrow> event list \<Rightarrow> nat" where
  "steps s [] = 0"
| "steps s (ev # evs) = (if enabled ev s then 1 else 0) + steps (fire ev s) evs"

definition loadApiKey :: "page \<Rightarrow> chrome_apis \<Rightarrow> loader" where
  "loadApiKey p c =
     tryLoadApiKey c
       \<lparr>retryCount = 0, attempts = 0, timeouts = [], retries = 0, inFlight = [],
        promiseState = Pending, config = p, logged = []\<rparr>"

text \<open>
  A key found in storage was set and verified: the branch that logs it was taken.
\<close>

definition verified :: "loader \<Rightarrow> bool" where
  "verified s \<longleftrightarrow> (Log, js ''API key loaded and verified'') \<in> set (logged s)"

text \<open>What holds in every state the loader reaches.\<close>

definition loaderInv :: "loader \<Rightarrow> bool" where
  "loaderInv s \<longleftrightarrow>
     attempts s + retries s = retryCount s + 1 \<and> retryCount s \<le> 3
     \<and> promiseState s \<noteq> Rejected
     \<and> (promiseState s = Resolved True \<longrightarrow> verified s \<and> GEMINI_API_KEY (config s) \<noteq> [])"

text \<open>
  While the promise is pending a timer is pending. This holds as long as no callback
  throws.
\<close>

definition live :: "loader \<Rightarrow> bool" where
  "live s \<longleftrightarrow> (promiseState s = Pending \<longrightarrow> timeouts s \<noteq> [] \<or> 0 < retries s)"

fun throwing :: "event \<Rightarrow> bool" where
  "throwing (Callback timeoutId CallbackThrows) = True"
| "throwing ev = False"

text \<open>A bound on the events still to come.\<close>

definition potential :: "loader \<Rightarrow> nat" where
  "potential s = 4 * (3 - retryCount s) + 3 * retries s + length (timeouts s) + length (inFlight s)"

text \<open>
  A calm run: no 5 s timer fires (every request calls back in time), no \<open>get\<close> throws
  and no callback throws. In a calm run one chain of attempts is at work at any time.
\<close>

fun calmEvent :: "event \<Rightarrow> bool" where
  "calmEvent (Timeout timeoutId c) = False"
| "calmEvent (Retry c) = (c \<noteq> GetThrows)"
| "calmEvent (Callback timeoutId res) = (res \<noteq> CallbackThrows)"

definition calm :: "chrome_apis \<Rightarrow> event list \<Rightarrow> bool" where
  "calm c evs \<longleftrightarrow> c \<noteq> GetThrows \<and> list_all calmEvent evs"

text \<open>
  What holds along a calm run: at most one request or retry timer is outstanding, none
  once the promise is settled, and a verified key means the promise resolved \<open>true\<close>.
\<close>

definition single :: "loader \<Rightarrow> bool" where
  "single s \<longleftrightarrow>
     length (inFlight s) + retries s \<le> 1
     \<and> (promiseState s \<noteq> Pending \<longrightarrow> inFlight s = [] \<and> retries s = 0)
     \<and> (verified s \<longrightarrow> promiseState s = Resolved True)"

text \<open>
  Four attempts time out one after the other, and then the request of the first attempt
  calls back with the stored key \<open>k\<close>.
\<close>

definition lateEvents :: "event list" where
  "lateEvents =
     [Timeout 0 Available, Timeout 1 Available, Timeout 2 Available, Timeout 3 Available,
      Callback 0 (Result (Some (js ''k'')))]"

text \<open>
  The request of the first attempt calls back when \<open>chrome.runtime\<close> is gone: after this
  event no timer is pending and no request is in flight.
\<close>

definition stuckEvents :: "event list" where
  "stuckEvents = [Callback 0 CallbackThrows]"

subsection \<open>Environments used as examples\<close>

text \<open>No key anywhere: the configuration object holds the empty key of a fresh page.\<close>

definition noKeyEnv :: env where
  "noKeyEnv =
     \<lparr>keyAttempts = (\<lambda>n. \<lparr>configKey = Some [], globalKey = Some []\<rparr>), getApiUrl = Some [],
      fetch = (\<lambda>r. Failed), JSON_parse = (\<lambda>s. None), ToNumber_other = (\<lambda>v. NaN)\<rparr>"

text \<open>A key is set, and the server answers every request with status 500.\<close>

definition httpErrorEnv :: env where
  "httpErrorEnv =
     \<lparr>keyAttempts = (\<lambda>n. \<lparr>configKey = Some (js ''k''), globalKey = Some (js ''k'')\<rparr>),
      getApiUrl = Some (apiUrlPrefix @ js ''k''),
      fetch = (\<lambda>r. Response \<lparr>ok = False, status = 500, bodyText = js ''Internal error'', bodyJson = None\<rparr>),
      JSON_parse = (\<lambda>s. None), ToNumber_other = (\<lambda>v. NaN)\<rparr>"

text \<open>
  A key is set, and the model answers with one mistake whose \<open>text\<close> is the empty string:
  the reply \<open>{"words_with_mistakes":[{"text":"","suggestion":"x","mistake_type":"grammar",
  "start_index":0,"end_index":1}]}\<close>, and what \<open>JSON.parse\<close> makes of it.
\<close>

definition emptyTextReply :: jsstring where
  "emptyTextReply = js ''{\"words_with_mistakes\":[{\"text\":\"\",\"suggestion\":\"x\",\"mistake_type\":\"grammar\",\"start_index\":0,\"end_index\":1}]}''"

definition emptyTextResult :: json where
  "emptyTextResult =
     JObj [(js ''words_with_mistakes'',
       JArr [JObj [(js ''text'', JStr []), (js ''suggestion'', JStr (js ''x'')),
                   (js ''mistake_type'', JStr (js ''grammar'')),
                   (js ''start_index'', JNum (Num 0)), (js ''end_index'', JNum (Num 1))]])]"

definition candidates :: "jsstring \<Rightarrow> json" where
  "candidates t =
     JObj [(js ''candidates'',
       JArr [JObj [(js ''content'', JObj [(js ''parts'', JArr [JObj [(js ''text'', JStr t)]])])]])]"

definition emptyTextEnv :: env where
  "emptyTextEnv =
     \<lparr>keyAttempts = (\<lambda>n. \<lparr>configKey = Some (js ''k''), globalKey = Some (js ''k'')\<rparr>),
      getApiUrl = Some (apiUrlPrefix @ js ''k''),
      fetch = (\<lambda>r. Response \<lparr>ok = True, status = 200, bodyText = [],
                                bodyJson = Some (candidates emptyTextReply)\<rparr>),
      JSON_parse = (\<lambda>s. if s = emptyTextReply then Some emptyTextResult else None),
      ToNumber_other = (\<lambda>v. NaN)\<rparr>"














section \<open>Properties\<close>

subsection \<open>Position lookup and node offset\<close>

lemma findLoop_positionLoop:
  "int c \<le> p \<Longrightarrow> p < int c + int (textLength nodes) \<Longrightarrow>
   \<exists>n off c'. findLoop nodes i p c = (Some (n, off), c') \<and> i \<le> n \<and>
     (\<forall>d. int (positionLoop nodes i n d) + int off + int c = p + int d)"
proof (induction nodes arbitrary: i c)
  case Nil
  then show ?case by (simp add: textLength_def)
next
  case (Cons v rest)
  show ?case
  proof (cases "skipped v")
    case True
    with Cons.prems have "p < int c + int (textLength rest)"
      by (simp add: textLength_def)
    from Cons.IH [OF Cons.prems(1) this, of "Suc i"]
    obtain n off c' where h: "findLoop rest (Suc i) p c = (Some (n, off), c')" "Suc i \<le> n"
      "\<forall>d. int (positionLoop rest (Suc i) n d) + int off + int c = p + int d"
      by blast
    from h(2) have "i \<noteq> n" by simp
    with True h show ?thesis by simp
  next
    case False
    show ?thesis
    proof (cases "p < int c + int (length v)")
      case True
      with False Cons.prems(1) show ?thesis by simp
    next
      case far: False
      then have lo: "int (c + length v) \<le> p" by simp
      from False Cons.prems(2) have "p < int (c + length v) + int (textLength rest)"
        by (simp add: textLength_def)
      from Cons.IH [OF lo this, of "Suc i"]
      obtain n off c' where h: "findLoop rest (Suc i) p (c + length v) = (Some (n, off), c')"
        "Suc i \<le> n"
        "\<forall>d. int (positionLoop rest (Suc i) n d) + int off + int (c + length v) = p + int d"
        by blast
      from h(2) have ne: "i \<noteq> n" by simp
      have "int (positionLoop rest (Suc i) n (d + length v)) + int off + int c = p + int d" for d
        using h(3) [rule_format, of "d + length v"] by simp
      with False far ne h(1) h(2) show ?thesis by simp
    qed
  qed
qed

text \<open>
  C10. For an element given by its text nodes and every position \<open>p\<close> with
  \<open>0 \<le> p < L\<close>, where \<open>L\<close> is the total length of the nodes that are not empty after
  trimming, \<open>findTextNodeAtPosition\<close> returns a node and an offset, and the position of
  that node given by \<open>getTextNodePosition\<close> plus the offset is \<open>p\<close>.
\<close>

theorem position_roundtrip:
  assumes "0 \<le> p" and "p < int (textLength nodes)"
  shows "\<exists>n off. findTextNodeAtPosition (Some nodes) p = Some \<lparr>node = Some n, offset = off\<rparr>
           \<and> int (getTextNodePosition (Some nodes) (Some n)) + int off = p"
proof -
  from assms have "int 0 \<le> p" "p < int 0 + int (textLength nodes)" by simp_all
  from findLoop_positionLoop [OF this, of 0]
  obtain n off c' where h: "findLoop nodes 0 p 0 = (Some (n, off), c')"
    "\<forall>d. int (positionLoop nodes 0 n d) + int off + int 0 = p + int d"
    by blast
  from h(2) have "int (positionLoop nodes 0 n 0) + int off = p" by simp
  with h(1) assms(1) show ?thesis
    by (simp add: findTextNodeAtPosition_def getTextNodePosition_def)
qed

theorem position_roundtrip_witness:
  "(0::int) \<le> 4 \<and> 4 < int (textLength [js ''ab'', js ''  '', js ''cdef''])
   \<and> findTextNodeAtPosition (Some [js ''ab'', js ''  '', js ''cdef'']) 4
       = Some \<lparr>node = Some 2, offset = 2\<rparr>
   \<and> int (getTextNodePosition (Some [js ''ab'', js ''  '', js ''cdef'']) (Some 2)) + int 2 = 4"
proof -
  have len: "textLength [js ''ab'', js ''  '', js ''cdef''] = 6"
    by (simp add: textLength_def skipped_def trim_def isWhiteSpace_def js_def)
  have f: "findTextNodeAtPosition (Some [js ''ab'', js ''  '', js ''cdef'']) 4
             = Some \<lparr>node = Some 2, offset = 2\<rparr>"
    by (simp add: findTextNodeAtPosition_def skipped_def trim_def isWhiteSpace_def js_def)
  have h: "(0::int) \<le> 4" "4 < int (textLength [js ''ab'', js ''  '', js ''cdef''])"
    using len by simp_all
  from position_roundtrip [OF h] f len show ?thesis by simp
qed

subsection \<open>Debounce windows\<close>

text \<open>
  C6 as stated fails: the window of \<open>repositionLogo\<close> is 50 ms, below the 100 ms the
  claim gives as the least window.
\<close>

theorem debounce_window_counterexample:
  "\<not> (100 \<le> window RepositionLogo 0 \<and> window RepositionLogo 0 \<le> 1500)"
  by (simp add: window_def call_debounced_def debounce_def)

text \<open>
  C6, amended. Every debounce window the extension installs lies between 50 milliseconds
  and 1.5 seconds inclusive: whenever one of the debounced handlers is called, its timer
  is due at least 50 ms and at most 1500 ms later.
\<close>

theorem debounce_window_bounds:
  "50 \<le> window h now \<and> window h now \<le> 1500"
  by (cases h) (simp_all add: window_def call_debounced_def debounce_def)

subsection \<open>The active model\<close>

text \<open>
  C7 as stated fails: an \<open>API_KEY_UPDATED\<close> message that carries a model leaves the
  synced storage without any \<open>activeModel\<close> entry.
\<close>

theorem activeModel_sync_counterexample:
  "syncStorage (onMessage (API_KEY_UPDATED (js ''k'') (Some (js ''claude''))) page0) (js ''activeModel'')
     \<noteq> Some (js ''claude'')"
  by (simp add: page0_def reinitializeWithNewKey_def updateApiKey_def js_def)

text \<open>
  C7, amended. When an \<open>API_KEY_UPDATED\<close> message carries a (non-empty) activeModel value,
  the listener writes that identifier to the page's \<open>localStorage\<close> and leaves the
  extension-synced storage as it was; \<open>getActiveModel\<close> reads the identifier back from
  \<open>localStorage\<close>, and yields \<open>gemini\<close> when nothing is stored there.
\<close>

theorem activeModel_localStorage:
  "(m \<noteq> [] \<longrightarrow>
      localStorage (onMessage (API_KEY_UPDATED k (Some m)) p) (js ''activeModel'') = Some m
      \<and> getActiveModel (onMessage (API_KEY_UPDATED k (Some m)) p) = m
      \<and> syncStorage (onMessage (API_KEY_UPDATED k (Some m)) p) = syncStorage p)
   \<and> (localStorage p (js ''activeModel'') = None \<longrightarrow> getActiveModel p = js ''gemini'')"
  by (simp add: getActiveModel_def reinitializeWithNewKey_def updateApiKey_def)

theorem activeModel_localStorage_witness:
  "js ''claude'' \<noteq> []
   \<and> localStorage (onMessage (API_KEY_UPDATED (js ''k'') (Some (js ''claude''))) page0) (js ''activeModel'')
       = Some (js ''claude'')
   \<and> getActiveModel (onMessage (API_KEY_UPDATED (js ''k'') (Some (js ''claude''))) page0) = js ''claude''
   \<and> syncStorage (onMessage (API_KEY_UPDATED (js ''k'') (Some (js ''claude''))) page0) = syncStorage page0
   \<and> localStorage page0 (js ''activeModel'') = None
   \<and> getActiveModel page0 = js ''gemini''"
proof -
  have ne: "js ''claude'' \<noteq> []" by (simp add: js_def)
  have em: "localStorage page0 (js ''activeModel'') = None" by (simp add: page0_def)
  from activeModel_localStorage [of "js ''claude''" "js ''k''" page0] ne em
  show ?thesis by simp
qed

subsection \<open>The API operations: requests, missing key, failures\<close>

lemma getApiKeyWithRetry_noKeyEnv: "getApiKeyWithRetry noKeyEnv = []"
  by (simp add: getApiKeyWithRetry_def noKeyEnv_def getApiKeyLoop.simps keyOf_def)

lemma getApiKeyWithRetry_httpErrorEnv: "getApiKeyWithRetry httpErrorEnv = js ''k''"
  by (simp add: getApiKeyWithRetry_def httpErrorEnv_def getApiKeyLoop.simps keyOf_def js_def)

text \<open>
  C3. When \<open>getApiKeyWithRetry\<close> yields an empty key, \<open>getGrammarSuggestions\<close> returns the
  one-element list with the message that no API key is set, \<open>analyzeSentiment\<close> returns
  the sentiment \<open>Neutral\<close> with the default emoji, and \<open>checkGrammarWithDetails\<close> returns
  an empty \<open>words_with_mistakes\<close>; each of them returns (it does not throw) and sends no
  request.
\<close>

theorem missing_key_best_effort:
  assumes "getApiKeyWithRetry e = []"
  shows "outcome (getGrammarSuggestions e text)
           = Inr [js ''No API key set. Please set your API key in the extension settings.'']
       \<and> requests (getGrammarSuggestions e text) = []
       \<and> outcome (analyzeSentiment e text) = Inr \<lparr>sentiment = js ''Neutral'', emoji = [240, 376, 732]\<rparr>
       \<and> requests (analyzeSentiment e text) = []
       \<and> outcome (checkGrammarWithDetails e text) = Inr (JObj [(js ''words_with_mistakes'', JArr [])])
       \<and> requests (checkGrammarWithDetails e text) = []"
  using assms
  by (simp add: getGrammarSuggestions_def getGrammarSuggestions_try_def analyzeSentiment_def
      analyzeSentiment_try_def checkGrammarWithDetails_def checkGrammarWithDetails_try_def
      noKeyMessage_def neutral_def noMistakes_def)

theorem missing_key_best_effort_witness:
  "getApiKeyWithRetry noKeyEnv = []
   \<and> outcome (getGrammarSuggestions noKeyEnv (js ''They was walking''))
       = Inr [js ''No API key set. Please set your API key in the extension settings.'']
   \<and> requests (getGrammarSuggestions noKeyEnv (js ''They was walking'')) = []
   \<and> outcome (analyzeSentiment noKeyEnv (js ''They was walking''))
       = Inr \<lparr>sentiment = js ''Neutral'', emoji = [240, 376, 732]\<rparr>
   \<and> requests (analyzeSentiment noKeyEnv (js ''They was walking'')) = []
   \<and> outcome (checkGrammarWithDetails noKeyEnv (js ''They was walking''))
       = Inr (JObj [(js ''words_with_mistakes'', JArr [])])
   \<and> requests (checkGrammarWithDetails noKeyEnv (js ''They was walking'')) = []"
  using missing_key_best_effort [OF getApiKeyWithRetry_noKeyEnv, of "js ''They was walking''"]
    getApiKeyWithRetry_noKeyEnv
  by simp

lemma requests_getGrammarSuggestions:
  "requests (getGrammarSuggestions e text)
     = (if getApiKeyWithRetry e = [] then []
        else [post (apiUrl e (getApiKeyWithRetry e)) (payload (suggestionsPrompt text)) 30000])"
proof -
  have "requests (getGrammarSuggestions_try e text)
     = (if getApiKeyWithRetry e = [] then []
        else [post (apiUrl e (getApiKeyWithRetry e)) (payload (suggestionsPrompt text)) 30000])"
    by (simp add: getGrammarSuggestions_try_def Let_def
        split: fetched.split option.split sum.split json.split)
  then show ?thesis
    by (simp add: getGrammarSuggestions_def Let_def split: sum.split)
qed

lemma requests_analyzeSentiment:
  "requests (analyzeSentiment e text)
     = (if getApiKeyWithRetry e = [] then []
        else [post (apiUrl e (getApiKeyWithRetry e)) (payload (sentimentPrompt text)) 15000])"
proof -
  have "requests (analyzeSentiment_try e text)
     = (if getApiKeyWithRetry e = [] then []
        else [post (apiUrl e (getApiKeyWithRetry e)) (payload (sentimentPrompt text)) 15000])"
    by (simp add: analyzeSentiment_try_def Let_def
        split: fetched.split option.split sum.split json.split)
  then show ?thesis
    by (simp add: analyzeSentiment_def Let_def split: sum.split)
qed

lemma requests_checkGrammarWithDetails:
  "requests (checkGrammarWithDetails e text)
     = (if getApiKeyWithRetry e = [] then []
        else [post (apiUrl e (getApiKeyWithRetry e)) (payload (detailsPrompt text)) 30000])"
proof -
  have "requests (checkGrammarWithDetails_try e text)
     = (if getApiKeyWithRetry e = [] then []
        else [post (apiUrl e (getApiKeyWithRetry e)) (payload (detailsPrompt text)) 30000])"
    by (simp add: checkGrammarWithDetails_try_def Let_def
        split: fetched.split option.split sum.split json.split)
  then show ?thesis
    by (simp add: checkGrammarWithDetails_def Let_def split: sum.split)
qed

lemma around_here: "\<exists>a b. \<forall>t. t @ r = a @ t @ (b :: 'a list)"
  by (rule exI [of _ "[]"]) simp

lemma around_later:
  assumes "\<exists>a b. \<forall>t. g t = a @ t @ (b :: 'a list)"
  shows "\<exists>a b. \<forall>t. x @ g t = a @ t @ b"
proof -
  from assms obtain a b where "\<forall>t. g t = a @ t @ b" by blast
  then have "\<forall>t. x @ g t = (x @ a) @ t @ b" by simp
  then show ?thesis by blast
qed

lemma prompts_hold_text:
  "\<exists>a b. \<forall>text. suggestionsPrompt text = a @ text @ b"
  "\<exists>a b. \<forall>text. sentimentPrompt text = a @ text @ b"
  "\<exists>a b. \<forall>text. detailsPrompt text = a @ text @ b"
  unfolding suggestionsPrompt_def sentimentPrompt_def detailsPrompt_def
  by (intro around_later around_here)+

text \<open>
  C4. Every request that \<open>getGrammarSuggestions\<close>, \<open>analyzeSentiment\<close> and
  \<open>checkGrammarWithDetails\<close> send is a POST whose body is exactly
  \<open>{contents: [{parts: [{text: prompt}]}]}\<close>: one entry of \<open>contents\<close>, holding one part,
  whose only field is the prompt; and the prompt is built from the input text, which
  stands in it between a fixed head and a fixed tail.
\<close>

theorem request_shape:
  "(\<forall>r \<in> set (requests (getGrammarSuggestions e text)).
      httpMethod r = js ''POST''
      \<and> body r = JObj [(js ''contents'',
                   JArr [JObj [(js ''parts'', JArr [JObj [(js ''text'', JStr (suggestionsPrompt text))]])]])])
   \<and> (\<forall>r \<in> set (requests (analyzeSentiment e text)).
      httpMethod r = js ''POST''
      \<and> body r = JObj [(js ''contents'',
                   JArr [JObj [(js ''parts'', JArr [JObj [(js ''text'', JStr (sentimentPrompt text))]])]])])
   \<and> (\<forall>r \<in> set (requests (checkGrammarWithDetails e text)).
      httpMethod r = js ''POST''
      \<and> body r = JObj [(js ''contents'',
                   JArr [JObj [(js ''parts'', JArr [JObj [(js ''text'', JStr (detailsPrompt text))]])]])])
   \<and> (\<exists>a b. \<forall>t. suggestionsPrompt t = a @ t @ b)
   \<and> (\<exists>a b. \<forall>t. sentimentPrompt t = a @ t @ b)
   \<and> (\<exists>a b. \<forall>t. detailsPrompt t = a @ t @ b)"
  using prompts_hold_text
  by (simp add: requests_getGrammarSuggestions requests_analyzeSentiment
      requests_checkGrammarWithDetails post_def payload_def)

theorem request_shape_witness:
  "post (apiUrlPrefix @ js ''k'') (payload (suggestionsPrompt (js ''They was walking''))) 30000
     \<in> set (requests (getGrammarSuggestions httpErrorEnv (js ''They was walking'')))
   \<and> httpMethod (post (apiUrlPrefix @ js ''k'') (payload (suggestionsPrompt (js ''They was walking''))) 30000)
       = js ''POST''
   \<and> body (post (apiUrlPrefix @ js ''k'') (payload (suggestionsPrompt (js ''They was walking''))) 30000)
       = JObj [(js ''contents'',
           JArr [JObj [(js ''parts'',
             JArr [JObj [(js ''text'', JStr (suggestionsPrompt (js ''They was walking'')))]])]])]
   \<and> post (apiUrlPrefix @ js ''k'') (payload (sentimentPrompt (js ''They was walking''))) 15000
     \<in> set (requests (analyzeSentiment httpErrorEnv (js ''They was walking'')))
   \<and> body (post (apiUrlPrefix @ js ''k'') (payload (sentimentPrompt (js ''They was walking''))) 15000)
       = JObj [(js ''contents'',
           JArr [JObj [(js ''parts'',
             JArr [JObj [(js ''text'', JStr (sentimentPrompt (js ''They was walking'')))]])]])]
   \<and> post (apiUrlPrefix @ js ''k'') (payload (detailsPrompt (js ''They was walking''))) 30000
     \<in> set (requests (checkGrammarWithDetails httpErrorEnv (js ''They was walking'')))
   \<and> body (post (apiUrlPrefix @ js ''k'') (payload (detailsPrompt (js ''They was walking''))) 30000)
       = JObj [(js ''contents'',
           JArr [JObj [(js ''parts'',
             JArr [JObj [(js ''text'', JStr (detailsPrompt (js ''They was walking'')))]])]])]"
proof -
  have k: "getApiKeyWithRetry httpErrorEnv \<noteq> []"
    by (simp add: getApiKeyWithRetry_httpErrorEnv js_def)
  have u: "apiUrl httpErrorEnv (getApiKeyWithRetry httpErrorEnv) = apiUrlPrefix @ js ''k''"
    by (simp add: apiUrl_def httpErrorEnv_def)
  have m1: "post (apiUrlPrefix @ js ''k'') (payload (suggestionsPrompt (js ''They was walking''))) 30000
     \<in> set (requests (getGrammarSuggestions httpErrorEnv (js ''They was walking'')))"
    using k u by (simp add: requests_getGrammarSuggestions)
  have m2: "post (apiUrlPrefix @ js ''k'') (payload (sentimentPrompt (js ''They was walking''))) 15000
     \<in> set (requests (analyzeSentiment httpErrorEnv (js ''They was walking'')))"
    using k u by (simp add: requests_analyzeSentiment)
  have m3: "post (apiUrlPrefix @ js ''k'') (payload (detailsPrompt (js ''They was walking''))) 30000
     \<in> set (requests (checkGrammarWithDetails httpErrorEnv (js ''They was walking'')))"
    using k u by (simp add: requests_checkGrammarWithDetails)
  from request_shape [of httpErrorEnv "js ''They was walking''"] m1 m2 m3
  show ?thesis by blast
qed

text \<open>
  C1 as stated fails for \<open>getGrammarSuggestions\<close>: when the server answers with status
  500, the call throws the HTTP error to its caller.
\<close>

theorem suggestions_rethrow_counterexample:
  "outcome (getGrammarSuggestions httpErrorEnv (js ''They was walking''))
     = Inl (HttpError 500 (Some (js ''Internal error'')))"
  by (simp add: getGrammarSuggestions_def getGrammarSuggestions_try_def
      getApiKeyWithRetry_httpErrorEnv Let_def)
    (simp add: httpErrorEnv_def js_def)

text \<open>
  C1, amended. \<open>analyzeSentiment\<close> and \<open>checkGrammarWithDetails\<close> catch their own
  failures: for every input text and every environment they return (they never throw),
  and whenever the body of their \<open>try\<close> fails (HTTP error, missing candidates, a reply
  that cannot be parsed, a failed fetch) they log the error to the console and return
  the neutral tone, respectively the empty list of mistakes. \<open>getGrammarSuggestions\<close>
  catches its failures too and logs them to the console, but then throws the same error
  again to its caller.
\<close>

theorem failures_caught:
  "(\<exists>v. outcome (analyzeSentiment e text) = Inr v)
   \<and> (\<exists>v. outcome (checkGrammarWithDetails e text) = Inr v)
   \<and> (\<forall>x. outcome (analyzeSentiment_try e text) = Inl x \<longrightarrow>
         outcome (analyzeSentiment e text) = Inr \<lparr>sentiment = js ''Neutral'', emoji = [240, 376, 732]\<rparr>
         \<and> (Err, js ''Error analyzing sentiment:'') \<in> set (console (analyzeSentiment e text)))
   \<and> (\<forall>x. outcome (checkGrammarWithDetails_try e text) = Inl x \<longrightarrow>
         outcome (checkGrammarWithDetails e text) = Inr (JObj [(js ''words_with_mistakes'', JArr [])])
         \<and> (Err, js ''Error checking grammar with details:'')
             \<in> set (console (checkGrammarWithDetails e text)))
   \<and> (\<forall>x. outcome (getGrammarSuggestions_try e text) = Inl x \<longrightarrow>
         outcome (getGrammarSuggestions e text) = Inl x
         \<and> (Err, js ''Error getting grammar suggestions:'')
             \<in> set (console (getGrammarSuggestions e text)))"
  by (simp add: analyzeSentiment_def checkGrammarWithDetails_def getGrammarSuggestions_def
      Let_def neutral_def noMistakes_def split: sum.split)

lemma httpError_try:
  "outcome (analyzeSentiment_try httpErrorEnv t) = Inl (HttpError 500 None)"
  "outcome (checkGrammarWithDetails_try httpErrorEnv t) = Inl (HttpError 500 (Some (js ''Internal error'')))"
  "outcome (getGrammarSuggestions_try httpErrorEnv t) = Inl (HttpError 500 (Some (js ''Internal error'')))"
  by (simp add: analyzeSentiment_try_def checkGrammarWithDetails_try_def getGrammarSuggestions_try_def
      getApiKeyWithRetry_httpErrorEnv Let_def, simp add: httpErrorEnv_def js_def)+

theorem failures_caught_witness:
  "outcome (analyzeSentiment_try httpErrorEnv (js ''They was walking'')) = Inl (HttpError 500 None)
   \<and> outcome (analyzeSentiment httpErrorEnv (js ''They was walking''))
       = Inr \<lparr>sentiment = js ''Neutral'', emoji = [240, 376, 732]\<rparr>
   \<and> (Err, js ''Error analyzing sentiment:'')
       \<in> set (console (analyzeSentiment httpErrorEnv (js ''They was walking'')))
   \<and> outcome (checkGrammarWithDetails_try httpErrorEnv (js ''They was walking''))
       = Inl (HttpError 500 (Some (js ''Internal error'')))
   \<and> outcome (checkGrammarWithDetails httpErrorEnv (js ''They was walking''))
       = Inr (JObj [(js ''words_with_mistakes'', JArr [])])
   \<and> (Err, js ''Error checking grammar with details:'')
       \<in> set (console (checkGrammarWithDetails httpErrorEnv (js ''They was walking'')))
   \<and> outcome (getGrammarSuggestions_try httpErrorEnv (js ''They was walking''))
       = Inl (HttpError 500 (Some (js ''Internal error'')))
   \<and> outcome (getGrammarSuggestions httpErrorEnv (js ''They was walking''))
       = Inl (HttpError 500 (Some (js ''Internal error'')))
   \<and> (Err, js ''Error getting grammar suggestions:'')
       \<in> set (console (getGrammarSuggestions httpErrorEnv (js ''They was walking'')))"
  using failures_caught [of httpErrorEnv "js ''They was walking''"]
    httpError_try [of "js ''They was walking''"]
  by simp

subsection \<open>The indices of the mistakes\<close>

lemma candidateText_candidates: "candidateText (candidates t) m = Inr (Some (JStr t))"
  by (simp add: candidateText_def candidates_def thenE_def js_def)

lemma getApiKeyWithRetry_emptyTextEnv: "getApiKeyWithRetry emptyTextEnv = js ''k''"
  by (simp add: getApiKeyWithRetry_def emptyTextEnv_def getApiKeyLoop.simps keyOf_def js_def)

lemma matchBraces_emptyTextReply: "matchBraces emptyTextReply = Some emptyTextReply"
  by (simp add: matchBraces_def emptyTextReply_def js_def)

lemma fixMistake_emptyText:
  "fixMistake emptyTextEnv (js ''hello world'')
     (JObj [(js ''text'', JStr []), (js ''suggestion'', JStr (js ''x'')),
            (js ''mistake_type'', JStr (js ''grammar'')),
            (js ''start_index'', JNum (Num 0)), (js ''end_index'', JNum (Num 1))])
   = Inr (JObj [(js ''text'', JStr []), (js ''suggestion'', JStr (js ''x'')),
                (js ''mistake_type'', JStr (js ''grammar'')),
                (js ''start_index'', JNum (Num 0)), (js ''end_index'', JNum (Num 0))])"
  by (simp add: fixMistake_def js_def ToNumber_def substring_def trim_def isWhiteSpace_def
      indexOf_def Let_def)

text \<open>
  C9 fails on the code. For the text \<open>hello world\<close> and a reply whose single mistake has
  the empty string as its \<open>text\<close> and the indices 0 and 1, the clamping keeps 0 and 1, the
  extracted \<open>h\<close> differs from the empty text, \<open>indexOf\<close> finds the empty string at 0, and
  the mistake is returned with \<open>start_index = 0\<close> and \<open>end_index = 0\<close>: not
  \<open>start_index < end_index\<close>.
\<close>

theorem empty_text_indices:
  "outcome (checkGrammarWithDetails emptyTextEnv (js ''hello world''))
     = Inr (JObj [(js ''words_with_mistakes'',
         JArr [JObj [(js ''text'', JStr []), (js ''suggestion'', JStr (js ''x'')),
                     (js ''mistake_type'', JStr (js ''grammar'')),
                     (js ''start_index'', JNum (Num 0)), (js ''end_index'', JNum (Num 0))]])])"
proof -
  have f: "fetch emptyTextEnv r
             = Response \<lparr>ok = True, status = 200, bodyText = [],
                          bodyJson = Some (candidates emptyTextReply)\<rparr>" for r
    by (simp add: emptyTextEnv_def)
  have p: "JSON_parse emptyTextEnv emptyTextReply = Some emptyTextResult"
    by (simp add: emptyTextEnv_def)
  have k: "js ''k'' \<noteq> []"
    by (simp add: js_def)
  show ?thesis
    by (simp add: checkGrammarWithDetails_def checkGrammarWithDetails_try_def
        getApiKeyWithRetry_emptyTextEnv k f candidateText_candidates
        matchBraces_emptyTextReply p Let_def)
      (simp add: emptyTextResult_def fixMistake_emptyText thenE_def)
qed

lemma map_of_setProp_eq: "map_of (setProp props k v) k' = (if k' = k then Some v else map_of props k')"
  by (induction props) auto

lemma indexFrom_range:
  "indexFrom pat s i = Some p \<Longrightarrow> i \<le> p \<and> (p - i) + length pat \<le> length s"
proof (induction s arbitrary: i)
  case Nil
  then show ?case by (simp split: if_splits)
next
  case (Cons c cs)
  show ?case
  proof (cases "take (length pat) (c # cs) = pat")
    case True
    then have "length (take (length pat) (c # cs)) = length pat" by simp
    then have "length pat \<le> length (c # cs)" by simp
    with True Cons.prems show ?thesis by simp
  next
    case False
    with Cons.prems have "indexFrom pat cs (Suc i) = Some p" by simp
    from Cons.IH [OF this] have "Suc i \<le> p \<and> p - Suc i + length pat \<le> length cs" .
    then show ?thesis by (simp; arith)
  qed
qed

lemma names_differ:
  "js ''start_index'' \<noteq> js ''end_index''" "js ''text'' \<noteq> js ''start_index''"
  "js ''text'' \<noteq> js ''end_index''" "js ''end_index'' \<noteq> js ''start_index''"
  by (simp_all add: js_def)

text \<open>
  The empty \<open>text\<close> is the case the fix misses. For a non-empty input, a mistake whose
  indices convert to (integer) numbers and whose \<open>text\<close> is a non-empty string comes back
  with \<open>0 \<le> start_index < end_index \<le> text.length\<close>, relocated or not.
\<close>

lemma fixMistake_in_range:
  assumes "inp \<noteq> []"
    and "ToNumber e (map_of props (js ''start_index'')) = Num a"
    and "ToNumber e (map_of props (js ''end_index'')) = Num b"
    and "map_of props (js ''text'') = Some (JStr t)" and "t \<noteq> []"
  shows "\<exists>props' s f. fixMistake e inp (JObj props) = Inr (JObj props')
           \<and> map_of props' (js ''start_index'') = Some (JNum (Num s))
           \<and> map_of props' (js ''end_index'') = Some (JNum (Num f))
           \<and> 0 \<le> s \<and> s < f \<and> f \<le> int (length inp)"
proof -
  define s0 where "s0 = max 0 (min a (int (length inp) - 1))"
  define f0 where "f0 = max (s0 + 1) (min b (int (length inp)))"
  define props2 where "props2 = setProp (setProp props (js ''start_index'') (JNum (Num s0)))
                 (js ''end_index'') (JNum (Num f0))"
  from assms(1) have len: "1 \<le> int (length inp)" by (cases inp) simp_all
  have r0: "0 \<le> s0 \<and> s0 < f0 \<and> f0 \<le> int (length inp)"
    unfolding s0_def f0_def using len by arith
  have t2: "map_of props2 (js ''text'') = Some (JStr t)"
    using assms(4) names_differ by (simp add: props2_def map_of_setProp_eq)
  have fm: "fixMistake e inp (JObj props)
      = (if trim (substring inp (Num s0) (Num f0)) \<noteq> trim t then
           (case indexOf inp t of
              Some position \<Rightarrow>
                Inr (JObj (setProp (setProp props2 (js ''start_index'') (JNum (Num (int position))))
                             (js ''end_index'') (JNum (Num (int position + int (length t))))))
            | None \<Rightarrow> Inr (JObj props2))
         else Inr (JObj props2))"
    using assms(2,3) t2 names_differ
    by (simp add: fixMistake_def Let_def map_of_setProp_eq s0_def f0_def props2_def
        split: option.split)
  have base: "map_of props2 (js ''start_index'') = Some (JNum (Num s0))
      \<and> map_of props2 (js ''end_index'') = Some (JNum (Num f0))"
    using names_differ by (simp add: props2_def map_of_setProp_eq)
  show ?thesis
  proof (cases "trim (substring inp (Num s0) (Num f0)) \<noteq> trim t \<and> indexOf inp t \<noteq> None")
    case False
    then have "fixMistake e inp (JObj props) = Inr (JObj props2)"
      using fm by (auto split: option.splits)
    with base r0 show ?thesis by blast
  next
    case True
    then obtain p where p: "indexOf inp t = Some p" by blast
    with True fm have f: "fixMistake e inp (JObj props)
        = Inr (JObj (setProp (setProp props2 (js ''start_index'') (JNum (Num (int p))))
                             (js ''end_index'') (JNum (Num (int p + int (length t))))))"
      by simp
    from p have "p + length t \<le> length inp"
      using indexFrom_range [of t inp 0 p] by (simp add: indexOf_def)
    moreover from assms(5) have "0 < length t" by simp
    ultimately have r: "0 \<le> int p \<and> int p < int p + int (length t)
        \<and> int p + int (length t) \<le> int (length inp)" by simp
    have "map_of (setProp (setProp props2 (js ''start_index'') (JNum (Num (int p))))
                             (js ''end_index'') (JNum (Num (int p + int (length t)))))
             (js ''start_index'') = Some (JNum (Num (int p)))"
      "map_of (setProp (setProp props2 (js ''start_index'') (JNum (Num (int p))))
                             (js ''end_index'') (JNum (Num (int p + int (length t)))))
             (js ''end_index'') = Some (JNum (Num (int p + int (length t))))"
      using names_differ by (simp_all add: map_of_setProp_eq)
    with f r show ?thesis by blast
  qed
qed

subsection \<open>The cache of the grammar check\<close>


















subsection \<open>Reading the reply of the model\<close>















lemma matchBraces_None_iff:
  "matchBraces t = None \<longleftrightarrow> 125 \<notin> set (dropWhile (\<lambda>c. c \<noteq> 123) t)"
proof -
  have "dropWhile P xs = [] \<longleftrightarrow> (\<forall>x \<in> set xs. P x)" for P and xs :: "nat list"
    by (simp add: dropWhile_eq_Nil_conv)
  then show ?thesis
    by (auto simp: matchBraces_def Let_def)
qed



























lemma removeQuotes_none:
  "x \<noteq> [] \<Longrightarrow> \<not> isQuote (hd x) \<Longrightarrow> \<not> isQuote (last x) \<Longrightarrow> removeQuotes x = x"
  by (simp add: removeQuotes_def Let_def)








subsection \<open>Loading the API key\<close>

lemma inv_loadApiKey: "loaderInv (loadApiKey p c)"
  by (cases c)
    (simp_all add: loaderInv_def loadApiKey_def tryLoadApiKey_def retryLater_def resolve_def say_def
      maxRetries_def verified_def Let_def)

lemma mem_nonempty: "x \<in> set xs \<Longrightarrow> xs \<noteq> []"
  by auto

lemma inv_handle:
  assumes "loaderInv s" "enabled ev s"
  shows "loaderInv (handle ev s)"
proof (cases ev)
  case (Timeout i c)
  with assms show ?thesis
    by (cases c)
      (auto simp: loaderInv_def onTimeout_def tryLoadApiKey_def retryLater_def resolve_def say_def
        maxRetries_def verified_def Let_def)
next
  case (Retry c)
  with assms show ?thesis
    by (cases c)
      (auto simp: loaderInv_def onRetry_def tryLoadApiKey_def retryLater_def resolve_def say_def
        maxRetries_def verified_def Let_def)
next
  case (Callback i res)
  with assms show ?thesis
    by (cases res)
      (auto simp: loaderInv_def onCallback_def retryLater_def resolve_def say_def updateApiKey_def
        maxRetries_def verified_def Let_def)
qed

lemma live_loadApiKey: "live (loadApiKey p c)"
  by (cases c)
    (simp_all add: live_def loadApiKey_def tryLoadApiKey_def retryLater_def resolve_def say_def
      maxRetries_def Let_def)

lemma live_tryLoadApiKey: "live (tryLoadApiKey c s)"
  by (cases c)
    (simp_all add: live_def tryLoadApiKey_def retryLater_def resolve_def say_def Let_def)

lemma live_retryLater: "live (retryLater s)"
  by (simp add: live_def retryLater_def resolve_def say_def)

lemma live_resolve: "live (resolve b s)"
  by (simp add: live_def resolve_def)

lemma live_handle:
  assumes "\<not> throwing ev"
  shows "live (handle ev s)"
proof (cases ev)
  case (Timeout i c)
  then show ?thesis
    by (simp add: onTimeout_def Let_def live_tryLoadApiKey live_resolve)
next
  case (Retry c)
  then show ?thesis
    by (simp add: onRetry_def live_tryLoadApiKey)
next
  case (Callback i res)
  show ?thesis
  proof (cases res)
    case CallbackThrows
    with Callback assms show ?thesis by simp
  next
    case LastError
    with Callback show ?thesis
      by (simp add: onCallback_def Let_def live_retryLater)
  next
    case (Result stored)
    with Callback show ?thesis
      by (simp add: onCallback_def Let_def live_retryLater live_resolve)
  qed
qed

lemma live_runFrom: "live s \<Longrightarrow> \<not> list_ex throwing evs \<Longrightarrow> live (runFrom s evs)"
proof (induction evs arbitrary: s)
  case Nil
  then show ?case by simp
next
  case (Cons ev evs)
  then have "live (fire ev s)"
    by (simp add: fire_def live_handle)
  with Cons show ?case by simp
qed

lemma inv_fire: "loaderInv s \<Longrightarrow> loaderInv (fire ev s)"
  by (simp add: fire_def inv_handle)

lemma inv_runFrom: "loaderInv s \<Longrightarrow> loaderInv (runFrom s evs)"
  by (induction evs arbitrary: s) (simp_all add: inv_fire)

lemma potential_say: "potential (say lv m s) = potential s"
  by (simp add: potential_def say_def)

lemma potential_resolve: "potential (resolve b s) = potential s"
  by (simp add: potential_def resolve_def)

lemma retryCount_say: "retryCount (say lv m s) = retryCount s"
  by (simp add: say_def)

lemma potential_retryLater: "retryCount s \<le> 3 \<Longrightarrow> potential (retryLater s) < potential s + 1"
proof (cases "retryCount s < 3")
  case True
  assume "retryCount s \<le> 3"
  from True have "4 * (3 - (retryCount s + 1)) + 4 = 4 * (3 - retryCount s)" by arith
  then show ?thesis using True
    by (simp add: retryLater_def potential_say maxRetries_def) (simp add: potential_def)
next
  case False
  then show ?thesis
    by (simp add: retryLater_def potential_resolve maxRetries_def)
qed

lemma potential_tryLoadApiKey:
  "retryCount s \<le> 3 \<Longrightarrow> potential (tryLoadApiKey c s) \<le> potential s + 2"
proof (cases c)
  case Undeclared
  assume r: "retryCount s \<le> 3"
  have "potential (retryLater (say Err (js ''Critical error loading API key:'') (s\<lparr>attempts := attempts s + 1\<rparr>)))
          < potential (say Err (js ''Critical error loading API key:'') (s\<lparr>attempts := attempts s + 1\<rparr>)) + 1"
    by (rule potential_retryLater) (simp add: retryCount_say r)
  then show ?thesis using Undeclared
    by (simp add: tryLoadApiKey_def Let_def potential_say) (simp add: potential_def)
next
  case Unavailable
  then show ?thesis
    by (simp add: tryLoadApiKey_def Let_def potential_say potential_resolve) (simp add: potential_def)
next
  case Invalidated
  then show ?thesis
    by (simp add: tryLoadApiKey_def Let_def potential_say potential_resolve) (simp add: potential_def)
next
  case GetThrows
  assume r: "retryCount s \<le> 3"
  let ?s1 = "say Err (js ''Critical error loading API key:'')
               (s\<lparr>attempts := attempts s + 1, timeouts := attempts s # timeouts s\<rparr>)"
  have "potential (retryLater ?s1) < potential ?s1 + 1"
    by (rule potential_retryLater) (simp add: retryCount_say r)
  moreover have "potential ?s1 = potential s + 1"
    by (simp add: potential_say) (simp add: potential_def)
  ultimately show ?thesis using GetThrows
    by (simp add: tryLoadApiKey_def Let_def)
next
  case Available
  then show ?thesis
    by (simp add: tryLoadApiKey_def Let_def) (simp add: potential_def)
qed

lemma potential_onTimeout:
  assumes "retryCount s \<le> 3" "i \<in> set (timeouts s)"
  shows "potential (onTimeout i c s) < potential s"
proof -
  let ?s1 = "say Warn (js ''API key loading timed out'') (s\<lparr>timeouts := remove1 i (timeouts s)\<rparr>)"
  from assms(2) have "0 < length (timeouts s)" by (cases "timeouts s") simp_all
  with assms(2) have l: "length (remove1 i (timeouts s)) + 1 = length (timeouts s)"
    by (simp add: length_remove1)
  have p1: "potential ?s1 + 1 = potential s"
    using l by (simp add: potential_say) (simp add: potential_def)
  have rc: "retryCount ?s1 = retryCount s" by (simp add: say_def)
  show ?thesis
  proof (cases "retryCount s < 3")
    case True
    let ?s2 = "say Log (js ''Retrying API key load'') (?s1\<lparr>retryCount := retryCount ?s1 + 1\<rparr>)"
    have r2: "retryCount ?s2 \<le> 3" using True by (simp add: say_def)
    have p2: "potential ?s2 + 4 = potential ?s1"
      using True by (simp add: potential_say) (simp add: potential_def say_def)
    from potential_tryLoadApiKey [OF r2, of c] p2 p1
    have "potential (tryLoadApiKey c ?s2) < potential s" by simp
    then show ?thesis using True rc
      by (simp add: onTimeout_def Let_def maxRetries_def)
  next
    case False
    then show ?thesis using p1 rc
      by (simp add: onTimeout_def Let_def maxRetries_def potential_resolve)
  qed
qed

lemma potential_onRetry:
  assumes "retryCount s \<le> 3" "0 < retries s"
  shows "potential (onRetry c s) < potential s"
proof -
  have "potential (s\<lparr>retries := retries s - 1\<rparr>) + 3 = potential s"
    using assms(2) by (simp add: potential_def)
  moreover have "potential (tryLoadApiKey c (s\<lparr>retries := retries s - 1\<rparr>))
                   \<le> potential (s\<lparr>retries := retries s - 1\<rparr>) + 2"
    by (rule potential_tryLoadApiKey) (simp add: assms(1))
  ultimately show ?thesis by (simp add: onRetry_def)
qed

lemma potential_onCallback:
  assumes "retryCount s \<le> 3" "i \<in> set (inFlight s)"
  shows "potential (onCallback i res s) < potential s"
proof -
  let ?s1 = "s\<lparr>inFlight := remove1 i (inFlight s), timeouts := remove1 i (timeouts s)\<rparr>"
  from assms(2) have "0 < length (inFlight s)" by (cases "inFlight s") simp_all
  with assms(2) have l: "length (remove1 i (inFlight s)) + 1 = length (inFlight s)"
    by (simp add: length_remove1)
  have "length (remove1 i (timeouts s)) \<le> length (timeouts s)"
    by (simp add: length_remove1)
  with l have p1: "potential ?s1 + 1 \<le> potential s"
    by (simp add: potential_def)
  have rl: "potential (retryLater (say lv m (?s1\<lparr>config := cfg\<rparr>))) < potential s" for lv m cfg
  proof -
    have "potential (retryLater (say lv m (?s1\<lparr>config := cfg\<rparr>)))
            < potential (say lv m (?s1\<lparr>config := cfg\<rparr>)) + 1"
      by (rule potential_retryLater) (simp add: retryCount_say assms(1))
    moreover have "potential (say lv m (?s1\<lparr>config := cfg\<rparr>)) = potential ?s1"
      by (simp add: potential_say) (simp add: potential_def)
    ultimately show ?thesis using p1 by simp
  qed
  have rl0: "potential (retryLater (say lv m ?s1)) < potential s" for lv m
    using rl [of lv m "config s"] by simp
  have rs: "potential (resolve b (say lv m (?s1\<lparr>config := cfg\<rparr>))) < potential s" for b lv m cfg
  proof -
    have "potential (say lv m (?s1\<lparr>config := cfg\<rparr>)) = potential ?s1"
      by (simp add: potential_say) (simp add: potential_def)
    then show ?thesis using p1 by (simp add: potential_resolve)
  qed
  have rs0: "potential (resolve b (say lv m ?s1)) < potential s" for b lv m
    using rs [of b lv m "config s"] by simp
  show ?thesis
  proof (cases res)
    case CallbackThrows
    then show ?thesis using p1 by (simp add: onCallback_def Let_def)
  next
    case LastError
    then show ?thesis using rl0 by (simp add: onCallback_def Let_def)
  next
    case (Result stored)
    then show ?thesis using rl rs rs0
      by (simp add: onCallback_def Let_def)
  qed
qed

lemma potential_handle:
  assumes "loaderInv s" "enabled ev s"
  shows "potential (handle ev s) < potential s"
proof -
  from assms(1) have r: "retryCount s \<le> 3" by (simp add: loaderInv_def)
  show ?thesis
  proof (cases ev)
    case (Timeout i c)
    with assms(2) potential_onTimeout [OF r, of i c] show ?thesis by simp
  next
    case (Retry c)
    with assms(2) potential_onRetry [OF r, of c] show ?thesis by simp
  next
    case (Callback i res)
    with assms(2) potential_onCallback [OF r, of i res] show ?thesis by simp
  qed
qed

lemma steps_potential: "loaderInv s \<Longrightarrow> steps s evs + potential (runFrom s evs) \<le> potential s"
proof (induction evs arbitrary: s)
  case Nil
  then show ?case by simp
next
  case (Cons ev evs)
  show ?case
  proof (cases "enabled ev s")
    case True
    then have f: "fire ev s = handle ev s" by (simp add: fire_def)
    from potential_handle [OF Cons.prems True] have "potential (fire ev s) < potential s"
      by (simp add: f)
    moreover from Cons.IH [OF inv_fire [OF Cons.prems], of ev]
    have "steps (fire ev s) evs + potential (runFrom (fire ev s) evs) \<le> potential (fire ev s)" .
    ultimately show ?thesis using True by simp
  next
    case False
    then have "fire ev s = s" by (simp add: fire_def)
    with Cons.IH [OF Cons.prems] False show ?thesis by simp
  qed
qed

lemma potential_loadApiKey: "potential (loadApiKey p c) \<le> 14"
  by (cases c)
    (simp_all add: potential_def loadApiKey_def tryLoadApiKey_def retryLater_def resolve_def say_def
      maxRetries_def Let_def)

lemma single_loadApiKey: "c \<noteq> GetThrows \<Longrightarrow> single (loadApiKey p c)"
  by (cases c)
    (simp_all add: single_def loadApiKey_def tryLoadApiKey_def retryLater_def resolve_def say_def
      maxRetries_def verified_def Let_def js_def)

lemma only_one: "i \<in> set xs \<Longrightarrow> length xs \<le> 1 \<Longrightarrow> xs = [i]"
  by (cases xs) auto

lemma single_tryLoadApiKey:
  assumes "c \<noteq> GetThrows" "inFlight s = []" "retries s = 0" "promiseState s = Pending" "\<not> verified s"
  shows "single (tryLoadApiKey c s)"
  using assms
  by (cases c)
    (simp_all add: single_def tryLoadApiKey_def retryLater_def resolve_def say_def
      maxRetries_def verified_def Let_def js_def)

lemma single_handle:
  assumes "single s" "enabled ev s" "calmEvent ev"
  shows "single (handle ev s)"
proof (cases ev)
  case (Timeout i c)
  with assms(3) show ?thesis by simp
next
  case (Retry c)
  with assms have r: "0 < retries s" and c: "c \<noteq> GetThrows" by simp_all
  from assms(1) have "length (inFlight s) + retries s \<le> 1" by (simp add: single_def)
  with r have "length (inFlight s) = 0" by arith
  then have e: "inFlight s = []" by simp
  from assms(1) r have "promiseState s = Pending" "\<not> verified s"
    by (auto simp: single_def)
  moreover from assms(1) r have "retries s = 1" by (simp add: single_def)
  moreover note e
  ultimately have "single (tryLoadApiKey c (s\<lparr>retries := retries s - 1\<rparr>))"
    by (intro single_tryLoadApiKey [OF c]) (simp_all add: verified_def)
  with Retry show ?thesis by (simp add: onRetry_def)
next
  case (Callback i res)
  with assms(2) have i: "i \<in> set (inFlight s)" by simp
  with assms(1) have f: "inFlight s = [i]" by (intro only_one) (simp_all add: single_def)
  with assms(1) have p: "retries s = 0" "promiseState s = Pending" "\<not> verified s"
    by (auto simp: single_def)
  show ?thesis
  proof (cases res)
    case CallbackThrows
    with Callback assms(3) show ?thesis by simp
  next
    case LastError
    with Callback f p show ?thesis
      by (simp add: single_def onCallback_def retryLater_def resolve_def say_def
          maxRetries_def verified_def Let_def js_def)
  next
    case (Result stored)
    with Callback f p show ?thesis
      by (simp add: single_def onCallback_def retryLater_def resolve_def say_def updateApiKey_def
          maxRetries_def verified_def Let_def js_def)
  qed
qed

lemma single_runFrom: "single s \<Longrightarrow> list_all calmEvent evs \<Longrightarrow> single (runFrom s evs)"
proof (induction evs arbitrary: s)
  case Nil
  then show ?case by simp
next
  case (Cons ev evs)
  then have "single (fire ev s)"
    by (simp add: fire_def single_handle)
  with Cons show ?case by simp
qed

text \<open>
  C8 as stated fails twice. Its "exactly when" fails: when the four attempts have timed
  out the promise resolves \<open>false\<close>; the request of the first attempt was never cancelled,
  and when it calls back afterwards the key it found is set and verified, while the
  promise stays \<open>false\<close>. Its "always resolves" fails: when the callback of the first
  request runs after \<open>chrome.runtime\<close> is gone, it has cleared its timer before it throws,
  and the promise stays pending with no timer, no retry and no request left.
\<close>

theorem callback_counterexample:
  "promiseState (runFrom (loadApiKey page0 Available) lateEvents) = Resolved False
   \<and> verified (runFrom (loadApiKey page0 Available) lateEvents)
   \<and> GEMINI_API_KEY (config (runFrom (loadApiKey page0 Available) lateEvents)) = js ''k''
   \<and> promiseState (runFrom (loadApiKey page0 Available) stuckEvents) = Pending
   \<and> timeouts (runFrom (loadApiKey page0 Available) stuckEvents) = []
   \<and> retries (runFrom (loadApiKey page0 Available) stuckEvents) = 0
   \<and> inFlight (runFrom (loadApiKey page0 Available) stuckEvents) = []"
  by code_simp

text \<open>
  C8, amended. \<open>loadApiKey\<close> has a fixed retry count: in every run it makes at most 3
  retries (4 attempts in total), and at most 14 events happen. Its promise never
  rejects. As long as no storage callback throws, a timer is pending while the promise
  is pending, so the promise is settled with a boolean once the timers have fired. It
  resolves with \<open>true\<close> only when a key found in storage was set and verified (and the
  key is then set); and in a calm run, where every storage request calls back before its
  timeout and neither \<open>get\<close> nor a callback throws, it resolves with \<open>true\<close> exactly when
  a key was set and verified.
\<close>

theorem loadApiKey_settles:
  "attempts (runFrom (loadApiKey p c) evs) \<le> 4
   \<and> retryCount (runFrom (loadApiKey p c) evs) \<le> 3
   \<and> steps (loadApiKey p c) evs \<le> 14
   \<and> promiseState (runFrom (loadApiKey p c) evs) \<noteq> Rejected
   \<and> (\<not> list_ex throwing evs \<longrightarrow>
        promiseState (runFrom (loadApiKey p c) evs) = Pending \<longrightarrow>
        timeouts (runFrom (loadApiKey p c) evs) \<noteq> [] \<or> 0 < retries (runFrom (loadApiKey p c) evs))
   \<and> (promiseState (runFrom (loadApiKey p c) evs) = Resolved True \<longrightarrow>
        verified (runFrom (loadApiKey p c) evs)
        \<and> GEMINI_API_KEY (config (runFrom (loadApiKey p c) evs)) \<noteq> [])
   \<and> (calm c evs \<longrightarrow>
        (promiseState (runFrom (loadApiKey p c) evs) = Resolved True
           \<longleftrightarrow> verified (runFrom (loadApiKey p c) evs)))"
proof -
  define s where "s = runFrom (loadApiKey p c) evs"
  have i: "loaderInv s"
    unfolding s_def by (rule inv_runFrom [OF inv_loadApiKey])
  have st: "steps (loadApiKey p c) evs \<le> 14"
    using steps_potential [OF inv_loadApiKey, of p c evs] potential_loadApiKey [of p c] by simp
  from i have i1: "attempts s + retries s = retryCount s + 1" and i2: "retryCount s \<le> 3"
    and i3: "promiseState s \<noteq> Rejected"
    and i5: "promiseState s = Resolved True \<longrightarrow> verified s \<and> GEMINI_API_KEY (config s) \<noteq> []"
    by (simp_all add: loaderInv_def)
  from i1 i2 have a: "attempts s \<le> 4" by arith
  have i4: "\<not> list_ex throwing evs \<longrightarrow> promiseState s = Pending \<longrightarrow>
      timeouts s \<noteq> [] \<or> 0 < retries s"
  proof
    assume "\<not> list_ex throwing evs"
    from live_runFrom [OF live_loadApiKey this, of p c]
    show "promiseState s = Pending \<longrightarrow> timeouts s \<noteq> [] \<or> 0 < retries s"
      by (simp add: live_def s_def)
  qed
  have k: "calm c evs \<longrightarrow> (promiseState s = Resolved True \<longleftrightarrow> verified s)"
  proof
    assume "calm c evs"
    then have "single s"
      unfolding s_def by (simp add: calm_def single_runFrom single_loadApiKey)
    then have "verified s \<longrightarrow> promiseState s = Resolved True" by (simp add: single_def)
    with i5 show "promiseState s = Resolved True \<longleftrightarrow> verified s" by blast
  qed
  from a i2 st i3 i4 i5 k show ?thesis
    unfolding s_def by blast
qed

theorem loadApiKey_settles_witness:
  "\<not> list_ex throwing []
   \<and> promiseState (runFrom (loadApiKey page0 Available) []) = Pending
   \<and> timeouts (runFrom (loadApiKey page0 Available) []) \<noteq> []
   \<and> calm Available [Callback 0 (Result (Some (js ''k'')))]
   \<and> \<not> list_ex throwing [Callback 0 (Result (Some (js ''k'')))]
   \<and> promiseState (runFrom (loadApiKey page0 Available) [Callback 0 (Result (Some (js ''k'')))])
       = Resolved True
   \<and> verified (runFrom (loadApiKey page0 Available) [Callback 0 (Result (Some (js ''k'')))])
   \<and> GEMINI_API_KEY (config (runFrom (loadApiKey page0 Available) [Callback 0 (Result (Some (js ''k'')))]))
       \<noteq> []
   \<and> attempts (runFrom (loadApiKey page0 Available) [Callback 0 (Result (Some (js ''k'')))]) \<le> 4"
proof -
  have n: "\<not> list_ex throwing []" "\<not> list_ex throwing [Callback 0 (Result (Some (js ''k'')))]"
    by simp_all
  have p: "promiseState (runFrom (loadApiKey page0 Available) []) = Pending"
    by (simp add: loadApiKey_def tryLoadApiKey_def Let_def)
  have c: "calm Available [Callback 0 (Result (Some (js ''k'')))]"
    by (simp add: calm_def)
  have r: "promiseState (runFrom (loadApiKey page0 Available) [Callback 0 (Result (Some (js ''k'')))])
       = Resolved True"
    by code_simp
  from loadApiKey_settles [of page0 Available "[]"] p n(1)
  have t: "timeouts (runFrom (loadApiKey page0 Available) []) \<noteq> []
             \<or> 0 < retries (runFrom (loadApiKey page0 Available) [])"
    by simp
  have "retries (runFrom (loadApiKey page0 Available) []) = 0"
    by (simp add: loadApiKey_def tryLoadApiKey_def Let_def)
  with t have t': "timeouts (runFrom (loadApiKey page0 Available) []) \<noteq> []" by simp
  from loadApiKey_settles [of page0 Available "[Callback 0 (Result (Some (js ''k'')))]"] c r
  have "verified (runFrom (loadApiKey page0 Available) [Callback 0 (Result (Some (js ''k'')))])
      \<and> GEMINI_API_KEY (config (runFrom (loadApiKey page0 Available) [Callback 0 (Result (Some (js ''k'')))]))
          \<noteq> []
      \<and> attempts (runFrom (loadApiKey page0 Available) [Callback 0 (Result (Some (js ''k'')))]) \<le> 4"
    by simp
  with c r n p t' show ?thesis by simp
qed

end
